theory Spec2Isabelle
  imports Complex_Main
begin

section \<open>Data model\<close>

text \<open>
  The canonical unit of work is the Interaction document. The Mongoose schema of the
  model is not part of the sources; the fields below are the ones the ingestion,
  enrichment and routing code reads or writes. A field that JavaScript may leave
  \<^verbatim>\<open>undefined\<close> is an \<open>option\<close>. JavaScript numbers are modelled by the reals
  they denote: comparison of two doubles is exact, and the literals \<^verbatim>\<open>0.7\<close> and
  \<^verbatim>\<open>0.70\<close> denote the same double.

  \<open>iid\<close> (the document's \<^verbatim>\<open>_id\<close>) and \<open>createdAt\<close> (milliseconds) are assigned
  by the store when a document is inserted; a draft that an adapter has built but not
  yet persisted carries 0 in both.
\<close>

record interaction =
  iid :: nat
  organization :: nat
  platform :: string
  itype :: string
  platformId :: string
  content :: string
  parentId :: "string option"
  threadId :: "string option"
  postId :: "string option"
  status :: "string option"
  sentiment :: "string option"
  sentimentScore :: "real option"
  sentimentConfidence :: "real option"
  intent :: "string option"
  topics :: "string list"
  aiSuggestion :: "string option"
  autoReplyEligible :: "bool option"
  assignedTo :: "nat option"
  priority :: "string option"
  urgency :: "string option"
  rating :: "int option"
  createdAt :: int

section \<open>AIService.canAutoReply\<close>

text \<open>
  \<^verbatim>\<open>interaction.sentimentConfidence < 0.7\<close>: with the left operand
  \<^verbatim>\<open>undefined\<close> the comparison is against NaN and yields false.
\<close>

definition js_lt :: "real option \<Rightarrow> real \<Rightarrow> bool" where
  "js_lt x t = (case x of None \<Rightarrow> False | Some c \<Rightarrow> c < t)"

definition canAutoReply :: "interaction \<Rightarrow> bool" where
  "canAutoReply i =
     (if sentiment i = Some ''negative'' then False
      else if js_lt (sentimentConfidence i) (7 / 10) then False
      else if intent i = Some ''complaint'' then False
      else if urgency i = Some ''urgent'' \<or> urgency i = Some ''high'' then False
      else True)"

text \<open>An interaction on which no enrichment or workflow field has been set.\<close>

definition blank :: interaction where
  "blank = \<lparr>iid = 0, organization = 0, platform = [], itype = [], platformId = [],
     content = [], parentId = None, threadId = None, postId = None, status = None,
     sentiment = None, sentimentScore = None, sentimentConfidence = None, intent = None,
     topics = [], aiSuggestion = None, autoReplyEligible = None, assignedTo = None,
     priority = None, urgency = None, rating = None, createdAt = 0\<rparr>"

section \<open>String helpers of the JavaScript runtime\<close>

text \<open>
  A JavaScript string is modelled by the bytes of its UTF-8 encoding; an ASCII keyword
  occurs in the string exactly when its bytes occur in the encoding.

  \<^verbatim>\<open>String.prototype.toLowerCase\<close>: the ASCII capitals, and the two code points
  outside ASCII whose lower case contains an ASCII letter, the Kelvin sign U+212A (lower
  case \<open>k\<close>) and the dotted capital I U+0130 (lower case \<open>i\<close> followed by U+0307).
  Every other letter outside ASCII has a lower case outside ASCII; it is left as it is,
  which no comparison with the ASCII keywords of the code can tell apart.
\<close>

definition lower_char :: "char \<Rightarrow> char" where
  "lower_char c =
     (let n = (of_char c :: nat) in if 65 \<le> n \<and> n \<le> 90 then char_of (n + 32) else c)"

function toLowerCase :: "string \<Rightarrow> string" where
  "toLowerCase s =
     (if s = [] then []
      else if take 3 s = [CHR 0xE2, CHR 0x84, CHR 0xAA]
      then CHR ''k'' # toLowerCase (drop 3 s)
      else if take 2 s = [CHR 0xC4, CHR 0xB0]
      then CHR ''i'' # CHR 0xCC # CHR 0x87 # toLowerCase (drop 2 s)
      else lower_char (hd s) # toLowerCase (tl s))"
  by pat_completeness auto
termination
  by (relation "measure length") (auto simp: Suc_le_eq)

declare toLowerCase.simps [simp del]

text \<open>
  \<^verbatim>\<open>String.prototype.trim\<close> removes the white space and line terminator code
  points at both ends: U+0009 to U+000D, U+0020, U+00A0, U+1680, U+2000 to U+200A,
  U+2028, U+2029, U+202F, U+205F, U+3000 and U+FEFF, here in UTF-8.
\<close>

definition whiteSpace :: "string list" where
  "whiteSpace =
     [[CHR 0x09], [CHR 0x0A], [CHR 0x0B], [CHR 0x0C], [CHR 0x0D], [CHR 0x20],
      [CHR 0xC2, CHR 0xA0], [CHR 0xE1, CHR 0x9A, CHR 0x80],
      [CHR 0xE2, CHR 0x80, CHR 0x80], [CHR 0xE2, CHR 0x80, CHR 0x81],
      [CHR 0xE2, CHR 0x80, CHR 0x82], [CHR 0xE2, CHR 0x80, CHR 0x83],
      [CHR 0xE2, CHR 0x80, CHR 0x84], [CHR 0xE2, CHR 0x80, CHR 0x85],
      [CHR 0xE2, CHR 0x80, CHR 0x86], [CHR 0xE2, CHR 0x80, CHR 0x87],
      [CHR 0xE2, CHR 0x80, CHR 0x88], [CHR 0xE2, CHR 0x80, CHR 0x89],
      [CHR 0xE2, CHR 0x80, CHR 0x8A], [CHR 0xE2, CHR 0x80, CHR 0xA8],
      [CHR 0xE2, CHR 0x80, CHR 0xA9], [CHR 0xE2, CHR 0x80, CHR 0xAF],
      [CHR 0xE2, CHR 0x81, CHR 0x9F], [CHR 0xE3, CHR 0x80, CHR 0x80],
      [CHR 0xEF, CHR 0xBB, CHR 0xBF]]"

text \<open>All leading occurrences of the given byte sequences are removed.\<close>

function dropLeading :: "string list \<Rightarrow> string \<Rightarrow> string" where
  "dropLeading ps s =
     (case find (\<lambda>p. p \<noteq> [] \<and> take (length p) s = p) ps of
        None \<Rightarrow> s
      | Some p \<Rightarrow> dropLeading ps (drop (length p) s))"
  by pat_completeness auto
termination
proof (relation "measure (\<lambda>(ps, s). length s)")
  show "wf (measure (\<lambda>(ps, s). length s))" by simp
next
  fix ps :: "string list" and s p :: string
  assume "find (\<lambda>p. p \<noteq> [] \<and> take (length p) s = p) ps = Some p"
  then have p: "p \<noteq> []" "take (length p) s = p" by (auto simp: find_Some_iff)
  have "length (take (length p) s) = length p" using p(2) by simp
  then have "length p \<le> length s" by simp
  moreover have "0 < length p" using p(1) by simp
  ultimately have "length s - length p < length s" by arith
  then show "((ps, drop (length p) s), (ps, s)) \<in> measure (\<lambda>(ps, s). length s)"
    by simp
qed

declare dropLeading.simps [simp del]

definition trim :: "string \<Rightarrow> string" where
  "trim s = rev (dropLeading (map rev whiteSpace) (rev (dropLeading whiteSpace s)))"

text \<open>\<^verbatim>\<open>s.includes(sub)\<close>: \<open>sub\<close> occurs in \<open>s\<close> as a contiguous run.\<close>

fun str_includes :: "string \<Rightarrow> string \<Rightarrow> bool" where
  "str_includes [] sub = (sub = [])"
| "str_includes (c # cs) sub = (take (length sub) (c # cs) = sub \<or> str_includes cs sub)"

text \<open>\<^verbatim>\<open>s.split(',')\<close>: the pieces between commas; never an empty array.\<close>

fun split_comma :: "string \<Rightarrow> string list" where
  "split_comma [] = [[]]"
| "split_comma (c # cs) =
     (if c = CHR '','' then [] # split_comma cs
      else (case split_comma cs of [] \<Rightarrow> [[c]] | p # ps \<Rightarrow> (c # p) # ps))"

section \<open>AIService: the four provider-backed stages\<close>

text \<open>
  Each stage posts one chat-completion request and reads
  \<^verbatim>\<open>response.data.choices[0].message.content\<close> inside a \<^verbatim>\<open>try\<close>. The provider is
  an external collaborator: its answer to a stage is \<open>Some text\<close>, and \<open>None\<close> stands
  for every way the \<^verbatim>\<open>try\<close> block can throw (network error, timeout, a response
  without choices).
\<close>

record sentiment_result =
  sr_sentiment :: string
  sr_score :: real
  sr_confidence :: real

definition analyzeSentiment :: "string option \<Rightarrow> sentiment_result" where
  "analyzeSentiment reply =
     (case reply of
        None \<Rightarrow> \<lparr>sr_sentiment = ''neutral'', sr_score = 0, sr_confidence = 5 / 10\<rparr>
      | Some text \<Rightarrow>
          (let result = trim (toLowerCase text);
               s = (if str_includes result ''positive'' then ''positive''
                    else if str_includes result ''negative'' then ''negative''
                    else ''neutral'');
               score = (if s = ''positive'' then 8 / 10
                        else if s = ''negative'' then - (8 / 10) else 0)
           in \<lparr>sr_sentiment = s, sr_score = score, sr_confidence = 85 / 100\<rparr>))"

definition validIntents :: "string list" where
  "validIntents = [''inquiry'', ''complaint'', ''praise'', ''feedback'', ''support'']"

definition detectIntent :: "string option \<Rightarrow> string" where
  "detectIntent reply =
     (case reply of
        None \<Rightarrow> ''other''
      | Some text \<Rightarrow>
          (let i = trim (toLowerCase text)
           in if i \<in> set validIntents then i else ''other''))"

definition extractTopics :: "string option \<Rightarrow> string list" where
  "extractTopics reply =
     (case reply of
        None \<Rightarrow> []
      | Some text \<Rightarrow> filter (\<lambda>t. t \<noteq> []) (map trim (split_comma (trim text))))"

text \<open>
  \<open>generateResponse\<close> returns \<^verbatim>\<open>null\<close> on failure and the drafted reply otherwise
  (of the returned object only the text is kept; its confidence is the constant 0.8).
\<close>

definition generateResponse :: "string option \<Rightarrow> string option" where
  "generateResponse reply = (case reply of None \<Rightarrow> None | Some text \<Rightarrow> Some (trim text))"

text \<open>What the provider answers to the four requests of one enrichment run.\<close>

record provider =
  sentiment_reply :: "string option"
  intent_reply :: "string option"
  topics_reply :: "string option"
  response_reply :: "string option"

section \<open>The world the jobs run in\<close>

record user =
  uid :: nat
  uorg :: nat
  role :: string
  isActive :: bool

text \<open>
  A notification handed to the email service. \<open>sendEmail\<close> catches every transport
  error itself, so handing over never throws.
\<close>

datatype email =
    AssignmentNotification nat nat
  | NegativeSpikeAlert nat string nat

datatype logline = Info string | Err string

text \<open>
  What a call can throw: an interaction that is not found, a read of a property of
  \<^verbatim>\<open>undefined\<close>, a failed request to an external API, a connection without channel
  id, and a write that the unique key of the collection rejects.
\<close>

datatype failure = NotFound | TypeError | FetchFailed | MissingChannel | DuplicateKey

record world =
  interactions :: "interaction list"
  users :: "user list"
  outbox :: "email list"
  console :: "logline list"

definition say :: "logline \<Rightarrow> world \<Rightarrow> world" where
  "say l w = w\<lparr>console := console w @ [l]\<rparr>"

definition sendMail :: "email \<Rightarrow> world \<Rightarrow> world" where
  "sendMail e w = w\<lparr>outbox := outbox w @ [e]\<rparr>"

definition findById :: "nat \<Rightarrow> world \<Rightarrow> interaction option" where
  "findById k w = find (\<lambda>d. iid d = k) (interactions w)"

definition countDocuments :: "(interaction \<Rightarrow> bool) \<Rightarrow> world \<Rightarrow> nat" where
  "countDocuments q w = length (filter q (interactions w))"

text \<open>\<^verbatim>\<open>doc.save()\<close>: the stored document with this \<^verbatim>\<open>_id\<close> is replaced.\<close>

definition save :: "interaction \<Rightarrow> world \<Rightarrow> world" where
  "save doc w =
     w\<lparr>interactions := map (\<lambda>d. if iid d = iid doc then doc else d) (interactions w)\<rparr>"

text \<open>
  Modelled from the spec: the document method \<^verbatim>\<open>Interaction.assignTo\<close>, defined in
  the Interaction model that the sources do not contain. The spec lists \<open>assignedTo\<close>
  and the status \<open>assigned\<close> among the workflow fields written by the routing engine,
  and the controller that calls the method does not save afterwards, so the method
  persists the document itself.
\<close>

definition assignTo :: "nat \<Rightarrow> interaction \<Rightarrow> world \<Rightarrow> interaction \<times> world" where
  "assignTo agent doc w =
     (let doc' = doc\<lparr>assignedTo := Some agent, status := Some ''assigned''\<rparr>
      in (doc', save doc' w))"

section \<open>Routing: assignToAgent and checkNegativeSpike\<close>

definition activeAgents :: "interaction \<Rightarrow> world \<Rightarrow> user list" where
  "activeAgents doc w =
     filter (\<lambda>u. uorg u = organization doc \<and> role u = ''agent'' \<and> isActive u) (users w)"

definition workload :: "world \<Rightarrow> user \<Rightarrow> nat" where
  "workload w a =
     countDocuments (\<lambda>d. assignedTo d = Some (uid a)
        \<and> (status d = Some ''assigned'' \<or> status d = Some ''unread'')) w"

text \<open>
  \<^verbatim>\<open>agentWorkload.sort((a, b) => a.count - b.count)\<close> is a stable sort, and so is
  \<open>sort_key\<close>. \<^verbatim>\<open>agentWorkload[0]\<close> on an empty array would throw into the
  function's own \<^verbatim>\<open>catch\<close>.
\<close>

definition assignToAgent :: "interaction \<Rightarrow> world \<Rightarrow> interaction \<times> world" where
  "assignToAgent doc w =
     (let agents = activeAgents doc w
      in if length agents = 0 then (doc, say (Info ''No agents available for assignment'') w)
         else (let agentWorkload = map (\<lambda>a. (a, workload w a)) agents
               in case sort_key snd agentWorkload of
                    [] \<Rightarrow> (doc, say (Err ''Agent assignment error'') w)
                  | (selectedAgent, n) # rest \<Rightarrow>
                      (let (doc', w1) = assignTo (uid selectedAgent) doc w;
                           w2 = sendMail (AssignmentNotification (uid selectedAgent) (iid doc')) w1
                       in (doc', say (Info ''Assigned interaction to agent'') w2))))"

definition day_ms :: int where
  "day_ms = 24 * 60 * 60 * 1000"

definition negativeOnPost :: "int \<Rightarrow> interaction \<Rightarrow> string \<Rightarrow> interaction \<Rightarrow> bool" where
  "negativeOnPost now doc p d =
     (organization d = organization doc \<and> postId d = Some p
      \<and> sentiment d = Some ''negative'' \<and> now - day_ms \<le> createdAt d)"

definition findManager :: "interaction \<Rightarrow> world \<Rightarrow> user option" where
  "findManager doc w =
     find (\<lambda>u. uorg u = organization doc \<and> (role u = ''manager'' \<or> role u = ''admin'')
               \<and> isActive u) (users w)"

text \<open>
  \<^verbatim>\<open>if (!interaction.metadata?.postId) return\<close>: an absent and an empty post id
  are both falsy. \<open>now\<close> is \<^verbatim>\<open>Date.now()\<close>.
\<close>

definition checkNegativeSpike :: "int \<Rightarrow> interaction \<Rightarrow> world \<Rightarrow> interaction \<times> world" where
  "checkNegativeSpike now doc w =
     (case postId doc of
        None \<Rightarrow> (doc, w)
      | Some p \<Rightarrow>
          if p = [] then (doc, w)
          else (let negativeCount = countDocuments (negativeOnPost now doc p) w;
                    w1 = say (Info ''Negative comment count for post'') w
                in if 3 \<le> negativeCount
                   then (let w2 = say (Info ''ALERT: Negative spike detected!'') w1;
                             w3 = (case findManager doc w2 of
                                     None \<Rightarrow> w2
                                   | Some manager \<Rightarrow>
                                       sendMail (NegativeSpikeAlert (uid manager) p negativeCount) w2)
                         in (doc\<lparr>priority := Some ''urgent'', urgency := Some ''urgent''\<rparr>, w3))
                   else (doc, w1)))"

section \<open>The enrichment job processAI\<close>

text \<open>
  Steps 1 to 5 write the enrichment fields on the loaded document. The knowledge-base
  query of step 4 only feeds the prompt of step 5, whose answer is the provider's.
\<close>

definition enrich :: "provider \<Rightarrow> interaction \<Rightarrow> interaction" where
  "enrich ai doc =
     (let sentimentResult = analyzeSentiment (sentiment_reply ai);
          d1 = doc\<lparr>sentiment := Some (sr_sentiment sentimentResult),
                   sentimentScore := Some (sr_score sentimentResult),
                   sentimentConfidence := Some (sr_confidence sentimentResult)\<rparr>;
          d2 = d1\<lparr>intent := Some (detectIntent (intent_reply ai))\<rparr>;
          d3 = d2\<lparr>topics := extractTopics (topics_reply ai)\<rparr>
      in case generateResponse (response_reply ai) of
           None \<Rightarrow> d3
         | Some aiResponse \<Rightarrow> d3\<lparr>aiSuggestion := Some aiResponse\<rparr>)"

text \<open>Steps 6 and 7: the eligibility flag, then the auto-reply hook or the assignment.\<close>

definition route :: "provider \<Rightarrow> interaction \<Rightarrow> world \<Rightarrow> interaction \<times> world" where
  "route ai doc w =
     (let d = doc\<lparr>autoReplyEligible := Some (canAutoReply doc)\<rparr>
      in if canAutoReply doc \<and> generateResponse (response_reply ai) \<noteq> None
         then (d, say (Info ''Interaction is eligible for auto-reply'') w)
         else assignToAgent d (say (Info ''Assigning to agent...'') w))"

text \<open>Step 8 runs the spike check on negative comments only.\<close>

definition spikeStep :: "int \<Rightarrow> interaction \<Rightarrow> world \<Rightarrow> interaction \<times> world" where
  "spikeStep now d w =
     (if itype d = ''comment'' \<and> sentiment d = Some ''negative''
      then checkNegativeSpike now d w else (d, w))"

definition processAI :: "int \<Rightarrow> provider \<Rightarrow> nat \<Rightarrow> world \<Rightarrow> failure + world" where
  "processAI now ai interactionId w =
     (case findById interactionId w of
        None \<Rightarrow> Inl NotFound
      | Some doc \<Rightarrow>
          (let (d1, w1) = route ai (enrich ai doc) w;
               (d2, w2) = spikeStep now d1 w1
           in Inr (say (Info ''AI processing completed'') (save d2 w2))))"

text \<open>
  The document that \<open>processAI\<close> holds in memory when it saves at the end of a run, and
  the world it saves into.
\<close>

definition finalDoc :: "int \<Rightarrow> provider \<Rightarrow> interaction \<Rightarrow> world \<Rightarrow> interaction" where
  "finalDoc now ai doc w =
     fst (spikeStep now (fst (route ai (enrich ai doc) w)) (snd (route ai (enrich ai doc) w)))"

definition preSave :: "int \<Rightarrow> provider \<Rightarrow> interaction \<Rightarrow> world \<Rightarrow> world" where
  "preSave now ai doc w =
     snd (spikeStep now (fst (route ai (enrich ai doc) w)) (snd (route ai (enrich ai doc) w)))"

section \<open>The persistence gate\<close>

text \<open>
  Modelled from the spec: the uniqueness key of the Interaction collection. The schema
  and the indexes of the collection are in the Interaction model file, which the
  sources do not contain; the spec keys persisted Interaction documents by the unique
  triple (organizationId, platform, platformId).
\<close>

definition key3 :: "interaction \<Rightarrow> nat \<times> string \<times> string" where
  "key3 d = (organization d, platform d, platformId d)"

text \<open>
  Modelled from the spec: the insertion of one document into the Interaction collection.
  The spec has a record created once, on the first sighting of its platform id; the
  store gives it a fresh \<^verbatim>\<open>_id\<close> and the current time as \<open>createdAt\<close>.
\<close>

definition fresh_id :: "world \<Rightarrow> nat" where
  "fresh_id w = Suc (foldr max (map iid (interactions w)) 0)"

definition insertOne :: "int \<Rightarrow> interaction \<Rightarrow> world \<Rightarrow> world" where
  "insertOne now d w =
     w\<lparr>interactions := interactions w @ [d\<lparr>iid := fresh_id w, createdAt := now\<rparr>]\<rparr>"

text \<open>
  Modelled from the spec: \<^verbatim>\<open>Interaction.insertMany(docs, { ordered: false })\<close> on
  the collection with the unique triple. Every document is attempted in order; one that
  collides with a stored triple is rejected, and the call throws after the others have
  been written. The flag tells whether it throws.
\<close>

fun insertMany :: "int \<Rightarrow> interaction list \<Rightarrow> world \<Rightarrow> bool \<times> world" where
  "insertMany now [] w = (False, w)"
| "insertMany now (d # ds) w =
     (if key3 d \<in> set (map key3 (interactions w))
      then (True, snd (insertMany now ds w))
      else insertMany now ds (insertOne now d w))"

text \<open>
  Modelled from the spec:
  \<^verbatim>\<open>Interaction.findOneAndUpdate(filter, update, { upsert: true, new: true })\<close> on
  the collection with the unique triple. The first document matching the filter gets
  the update's fields and is returned; without a match a new document carrying those
  fields is inserted and returned. A write that would give two documents the same
  triple throws.
\<close>

definition findOneAndUpdate ::
  "(interaction \<Rightarrow> bool) \<Rightarrow> (interaction \<Rightarrow> interaction) \<Rightarrow> int \<Rightarrow> world
     \<Rightarrow> failure + interaction \<times> world" where
  "findOneAndUpdate flt upd now w =
     (case find flt (interactions w) of
        Some d \<Rightarrow>
          (let d' = upd d
           in if key3 d' \<in> set (map key3 (filter (\<lambda>e. iid e \<noteq> iid d') (interactions w)))
              then Inl DuplicateKey
              else Inr (d', save d' w))
      | None \<Rightarrow>
          (let d' = (upd blank)\<lparr>iid := fresh_id w, createdAt := now\<rparr>
           in if key3 d' \<in> set (map key3 (interactions w))
              then Inl DuplicateKey
              else Inr (d', insertOne now (upd blank) w)))"

text \<open>
  \<^verbatim>\<open>Interaction.findOne({ platformId, organization })\<close>, the existence check of the
  bulk adapters.
\<close>

definition existsFor :: "string \<Rightarrow> nat \<Rightarrow> world \<Rightarrow> bool" where
  "existsFor pid org w =
     (find (\<lambda>d. platformId d = pid \<and> organization d = org) (interactions w) \<noteq> None)"

section \<open>Webhook job: handleInstagramWebhook\<close>

text \<open>
  A change of an Instagram webhook entry. \<open>cvalue\<close> is \<^verbatim>\<open>change.value\<close>; reading a
  property of an absent value throws a TypeError, and so does \<^verbatim>\<open>message.from.id\<close>
  on a message without sender. Optional chaining makes the other reads safe.
\<close>

record ig_value =
  v_id :: string
  v_text :: "string option"
  v_from :: "string option"
  v_media :: "string option"
  v_conversation :: "string option"

record change =
  cfield :: string
  cvalue :: "ig_value option"

record entry =
  changes :: "change list option"

definition text_of :: "string option \<Rightarrow> string" where
  "text_of t = (case t of None \<Rightarrow> [] | Some x \<Rightarrow> x)"

text \<open>The fields that the update document of a comment, and of a direct message, sets.\<close>

definition commentUpdate :: "nat \<Rightarrow> ig_value \<Rightarrow> interaction \<Rightarrow> interaction" where
  "commentUpdate organizationId comment d =
     d\<lparr>organization := organizationId, platform := ''instagram'', itype := ''comment'',
       platformId := v_id comment, content := text_of (v_text comment),
       postId := v_media comment, status := Some ''unread''\<rparr>"

definition messageUpdate :: "nat \<Rightarrow> ig_value \<Rightarrow> interaction \<Rightarrow> interaction" where
  "messageUpdate organizationId message d =
     d\<lparr>organization := organizationId, platform := ''instagram'', itype := ''dm'',
       platformId := v_id message, content := text_of (v_text message),
       threadId := v_conversation message, status := Some ''unread''\<rparr>"

text \<open>
  The loop over \<^verbatim>\<open>entry.changes\<close> returns at the first change whose field is
  \<open>comments\<close> or \<open>messages\<close>; the function's \<^verbatim>\<open>catch\<close> logs and rethrows.
\<close>

fun instagramChanges ::
  "int \<Rightarrow> nat \<Rightarrow> change list \<Rightarrow> world \<Rightarrow> failure + interaction option \<times> world" where
  "instagramChanges now organizationId [] w = Inr (None, w)"
| "instagramChanges now organizationId (c # cs) w =
     (if cfield c = ''comments''
      then (case cvalue c of
              None \<Rightarrow> Inl TypeError
            | Some comment \<Rightarrow>
                (case findOneAndUpdate (\<lambda>d. platformId d = v_id comment)
                        (commentUpdate organizationId comment) now w of
                   Inl e \<Rightarrow> Inl e
                 | Inr (d, w') \<Rightarrow> Inr (Some d, w')))
      else if cfield c = ''messages''
      then (case cvalue c of
              None \<Rightarrow> Inl TypeError
            | Some message \<Rightarrow>
                (case v_from message of
                   None \<Rightarrow> Inl TypeError
                 | Some sender \<Rightarrow>
                     (case findOneAndUpdate (\<lambda>d. platformId d = v_id message)
                             (messageUpdate organizationId message) now w of
                        Inl e \<Rightarrow> Inl e
                      | Inr (d, w') \<Rightarrow> Inr (Some d, w'))))
      else instagramChanges now organizationId cs w)"

definition handleInstagramWebhook ::
  "int \<Rightarrow> entry list option \<Rightarrow> nat \<Rightarrow> world \<Rightarrow> failure + interaction option \<times> world" where
  "handleInstagramWebhook now payload organizationId w =
     (case payload of
        None \<Rightarrow> Inr (None, w)
      | Some [] \<Rightarrow> Inr (None, w)
      | Some (e # es) \<Rightarrow>
          instagramChanges now organizationId
            (case changes e of None \<Rightarrow> [] | Some cs \<Rightarrow> cs) w)"

section \<open>PlatformConnection and its sync statistics\<close>

record connection =
  cid :: nat
  corg :: nat
  cplatform :: string
  channelId :: "string option"
  locationIds :: "string list"
  cstatus :: string
  lastSyncAt :: "int option"
  lastError :: "(failure \<times> int) option"
  totalInteractionsSynced :: nat
  lastSyncCount :: nat
  failedSyncAttempts :: nat

definition updateSyncStats :: "nat \<Rightarrow> bool \<Rightarrow> int \<Rightarrow> connection \<Rightarrow> connection" where
  "updateSyncStats count success now c =
     (let c1 = c\<lparr>lastSyncAt := Some now, lastSyncCount := count,
                  totalInteractionsSynced := totalInteractionsSynced c + count\<rparr>
      in if \<not> success
         then c1\<lparr>failedSyncAttempts := failedSyncAttempts c1 + 1, cstatus := ''error''\<rparr>
         else c1\<lparr>failedSyncAttempts := 0, cstatus := ''connected''\<rparr>)"

definition logError :: "failure \<Rightarrow> int \<Rightarrow> connection \<Rightarrow> connection" where
  "logError e now c = c\<lparr>lastError := Some (e, now), cstatus := ''error''\<rparr>"

section \<open>YouTube adapter: fetchVideoComments\<close>

text \<open>
  A comment thread of the API response; the items of a response are objects. \<open>t_top\<close>
  is \<^verbatim>\<open>thread.snippet.topLevelComment.snippet\<close>, absent when any link of that chain
  is missing (the read then throws); \<open>textDisplay\<close> absent makes
  \<^verbatim>\<open>textDisplay.toLowerCase()\<close> throw. Of the draft built from a comment the fields
  of the data model are kept; the author and the platform timestamps play no part here.
\<close>

record yt_snippet =
  textDisplay :: "string option"

record yt_reply =
  r_id :: string
  r_snippet :: "yt_snippet option"

record yt_thread =
  t_id :: string
  t_top :: "yt_snippet option"
  totalReplyCount :: nat
  t_replies :: "yt_reply list option"

definition positiveWords :: "string list" where
  "positiveWords = [''great'', ''awesome'', ''love'', ''amazing'', ''excellent'', ''good'',
     ''nice'', ''perfect'']"

definition negativeWords :: "string list" where
  "negativeWords = [''bad'', ''terrible'', ''hate'', ''awful'', ''worst'', ''disappointed'',
     ''poor'']"

definition keywordSentiment :: "string \<Rightarrow> string" where
  "keywordSentiment shown =
     (let text = toLowerCase shown
      in if list_ex (str_includes text) positiveWords then ''positive''
         else if list_ex (str_includes text) negativeWords then ''negative''
         else ''neutral'')"

definition commentDraft :: "connection \<Rightarrow> string \<Rightarrow> string \<Rightarrow> interaction" where
  "commentDraft conn commentId text =
     blank\<lparr>organization := corg conn, platform := ''youtube'', itype := ''comment'',
       platformId := commentId, content := text, threadId := Some commentId,
       status := Some ''unread'', sentiment := Some (keywordSentiment text)\<rparr>"

definition replyDraft :: "connection \<Rightarrow> string \<Rightarrow> string \<Rightarrow> yt_snippet \<Rightarrow> interaction" where
  "replyDraft conn commentId replyId replySnippet =
     blank\<lparr>organization := corg conn, platform := ''youtube'', itype := ''comment'',
       platformId := replyId, content := text_of (textDisplay replySnippet),
       parentId := Some commentId, threadId := Some commentId,
       status := Some ''unread'', sentiment := Some ''neutral''\<rparr>"

text \<open>The inner loop over a thread's replies, each reply in its own \<^verbatim>\<open>try\<close>.\<close>

fun processReplies ::
  "connection \<Rightarrow> string \<Rightarrow> world \<Rightarrow> yt_reply list \<Rightarrow> interaction list \<times> logline list" where
  "processReplies conn commentId w [] = ([], [])"
| "processReplies conn commentId w (r # rs) =
     (let (ds, ls) = processReplies conn commentId w rs
      in if existsFor (r_id r) (corg conn) w then (ds, ls)
         else (case r_snippet r of
                 None \<Rightarrow> (ds, Err ''Error processing reply'' # ls)
               | Some replySnippet \<Rightarrow> (replyDraft conn commentId (r_id r) replySnippet # ds, ls)))"

text \<open>One pass of the outer loop body: the drafts pushed and the errors logged.\<close>

definition processThread ::
  "connection \<Rightarrow> world \<Rightarrow> yt_thread \<Rightarrow> interaction list \<times> logline list" where
  "processThread conn w thread =
     (case t_top thread of
        None \<Rightarrow> ([], [Err ''Error processing comment''])
      | Some topLevelComment \<Rightarrow>
          if existsFor (t_id thread) (corg conn) w then ([], [])
          else (case textDisplay topLevelComment of
                  None \<Rightarrow> ([], [Err ''Error processing comment''])
                | Some text \<Rightarrow>
                    (case t_replies thread of
                       None \<Rightarrow> ([commentDraft conn (t_id thread) text], [])
                     | Some rs \<Rightarrow>
                         (let (ds, ls) = processReplies conn (t_id thread) w rs
                          in (commentDraft conn (t_id thread) text # ds, ls)))))"

fun collectThreads ::
  "connection \<Rightarrow> world \<Rightarrow> yt_thread list \<Rightarrow> interaction list \<times> logline list" where
  "collectThreads conn w [] = ([], [])"
| "collectThreads conn w (t # ts) =
     (let (d1, l1) = processThread conn w t;
          (d2, l2) = collectThreads conn w ts
      in (d1 @ d2, l1 @ l2))"

text \<open>
  The tail shared by both bulk adapters: the drafts are bulk-inserted when there are
  any, and the call returns their number, or throws when the insert did.
\<close>

definition bulkInsert ::
  "int \<Rightarrow> interaction list \<Rightarrow> world \<Rightarrow> (failure + nat \<times> interaction list) \<times> world" where
  "bulkInsert now drafts w =
     (let (thrown, w') = (if 0 < length drafts then insertMany now drafts w else (False, w))
      in if thrown then (Inl DuplicateKey, say (Err ''Error fetching'') w')
         else (Inr (length drafts, drafts), w'))"

text \<open>
  \<open>response\<close> is the outcome of the API request: \<open>None\<close> when it throws, otherwise the
  items of the response (\<^verbatim>\<open>response.data.items || []\<close>).
\<close>

definition fetchVideoComments ::
  "int \<Rightarrow> connection \<Rightarrow> yt_thread list option \<Rightarrow> world
     \<Rightarrow> (failure + nat \<times> interaction list) \<times> world" where
  "fetchVideoComments now conn response w =
     (case response of
        None \<Rightarrow> (Inl FetchFailed, say (Err ''Error fetching'') w)
      | Some commentThreads \<Rightarrow>
          (let (drafts, logs) = collectThreads conn w commentThreads
           in bulkInsert now drafts (w\<lparr>console := console w @ logs\<rparr>)))"

text \<open>
  The threads and the replies on which the loop body throws: a thread whose snippet is
  missing, or whose text is missing while the thread is not stored yet (a stored thread
  is skipped before its text is read); a reply without snippet that is not stored yet.
\<close>

definition threadThrows :: "connection \<Rightarrow> world \<Rightarrow> yt_thread \<Rightarrow> bool" where
  "threadThrows conn w t =
     (case t_top t of
        None \<Rightarrow> True
      | Some sn \<Rightarrow> textDisplay sn = None \<and> \<not> existsFor (t_id t) (corg conn) w)"

definition replyThrows :: "connection \<Rightarrow> world \<Rightarrow> yt_reply \<Rightarrow> bool" where
  "replyThrows conn w r = (r_snippet r = None \<and> \<not> existsFor (r_id r) (corg conn) w)"

text \<open>A thread that is well formed, has no replies and is not stored yet.\<close>

definition plainNew :: "connection \<Rightarrow> world \<Rightarrow> yt_thread \<Rightarrow> bool" where
  "plainNew conn w t =
     (t_replies t = None \<and> \<not> existsFor (t_id t) (corg conn) w
      \<and> (case t_top t of None \<Rightarrow> False | Some sn \<Rightarrow> textDisplay sn \<noteq> None))"

section \<open>Review adapter: fetchReviews\<close>

text \<open>
  A review of the API response. Every read of the loop body on a review object is
  guarded, so no review makes the body throw.
\<close>

record review =
  reviewId :: string
  comment :: "string option"
  starRating :: "int option"

text \<open>
  \<^verbatim>\<open>if (review.starRating)\<close> and \<^verbatim>\<open>review.starRating || null\<close>: an absent rating
  and the rating 0 are both falsy.
\<close>

definition truthy :: "int option \<Rightarrow> bool" where
  "truthy r = (case r of None \<Rightarrow> False | Some n \<Rightarrow> n \<noteq> 0)"

text \<open>The sentiment that the draft gets from the rating; none when the guard fails.\<close>

definition ratingSentiment :: "int option \<Rightarrow> string option" where
  "ratingSentiment r =
     (if truthy r
      then (case r of
              None \<Rightarrow> None
            | Some n \<Rightarrow>
                if 4 \<le> n then Some ''positive''
                else if n \<le> 2 then Some ''negative''
                else Some ''neutral'')
      else None)"

definition reviewDraft :: "connection \<Rightarrow> review \<Rightarrow> interaction" where
  "reviewDraft conn r =
     blank\<lparr>organization := corg conn, platform := ''google'', itype := ''review'',
       platformId := reviewId r, content := text_of (comment r),
       rating := (if truthy (starRating r) then starRating r else None),
       status := Some ''unread'', sentiment := ratingSentiment (starRating r)\<rparr>"

fun collectReviews :: "connection \<Rightarrow> world \<Rightarrow> review list \<Rightarrow> interaction list" where
  "collectReviews conn w [] = []"
| "collectReviews conn w (r # rs) =
     (if existsFor (reviewId r) (corg conn) w then collectReviews conn w rs
      else reviewDraft conn r # collectReviews conn w rs)"

definition fetchReviews ::
  "int \<Rightarrow> connection \<Rightarrow> review list option \<Rightarrow> world
     \<Rightarrow> (failure + nat \<times> interaction list) \<times> world" where
  "fetchReviews now conn response w =
     (case response of
        None \<Rightarrow> (Inl FetchFailed, say (Err ''Error fetching'') w)
      | Some reviews \<Rightarrow> bulkInsert now (collectReviews conn w reviews) w)"

section \<open>Sync runs: fetchAllChannelComments and fetchAllReviews\<close>

text \<open>
  The platform APIs are external: \<open>videos\<close> is the outcome of \<open>getChannelVideos\<close>
  (\<open>None\<close> when it throws; a listed video is \<^verbatim>\<open>video.contentDetails.videoId\<close>,
  \<open>None\<close> when the item has no content details), \<open>threadsOf\<close> and \<open>reviewsOf\<close>
  are the outcomes of the per-resource requests.
\<close>

record api =
  videos :: "string option list option"
  threadsOf :: "string \<Rightarrow> yt_thread list option"
  reviewsOf :: "string \<Rightarrow> review list option"

text \<open>
  The loop over the videos. A failed fetch is caught, logged and skipped. On an item
  without content details the \<^verbatim>\<open>catch\<close> block itself throws while formatting its
  message, which ends the loop.
\<close>

fun syncVideos ::
  "int \<Rightarrow> api \<Rightarrow> connection \<Rightarrow> string option list \<Rightarrow> nat \<Rightarrow> world
     \<Rightarrow> (failure + nat) \<times> world" where
  "syncVideos now a conn [] totalCount w = (Inr totalCount, w)"
| "syncVideos now a conn (v # vs) totalCount w =
     (case v of
        None \<Rightarrow> (Inl TypeError, w)
      | Some videoId \<Rightarrow>
          (case fetchVideoComments now conn (threadsOf a videoId) w of
             (Inl e, w') \<Rightarrow>
               syncVideos now a conn vs totalCount
                 (say (Err ''Error fetching comments for video'') w')
           | (Inr (n, ds), w') \<Rightarrow> syncVideos now a conn vs (totalCount + n) w'))"

definition fetchAllChannelComments ::
  "int \<Rightarrow> api \<Rightarrow> connection \<Rightarrow> world \<Rightarrow> (failure + nat) \<times> connection \<times> world" where
  "fetchAllChannelComments now a conn w =
     (case channelId conn of
        None \<Rightarrow> (Inl MissingChannel, logError MissingChannel now conn, w)
      | Some ch \<Rightarrow>
          if ch = [] then (Inl MissingChannel, logError MissingChannel now conn, w)
          else (case videos a of
                  None \<Rightarrow> (Inl FetchFailed, logError FetchFailed now conn, w)
                | Some vs \<Rightarrow>
                    (case syncVideos now a conn vs 0 w of
                       (Inl e, w') \<Rightarrow> (Inl e, logError e now conn, w')
                     | (Inr totalCount, w') \<Rightarrow>
                         (Inr totalCount, updateSyncStats totalCount True now conn, w'))))"

fun syncLocations ::
  "int \<Rightarrow> api \<Rightarrow> connection \<Rightarrow> string list \<Rightarrow> nat \<Rightarrow> world \<Rightarrow> nat \<times> world" where
  "syncLocations now a conn [] totalCount w = (totalCount, w)"
| "syncLocations now a conn (locationId # ls) totalCount w =
     (case fetchReviews now conn (reviewsOf a locationId) w of
        (Inl e, w') \<Rightarrow>
          syncLocations now a conn ls totalCount
            (say (Err ''Error fetching reviews for location'') w')
      | (Inr (n, ds), w') \<Rightarrow> syncLocations now a conn ls (totalCount + n) w')"

definition fetchAllReviews ::
  "int \<Rightarrow> api \<Rightarrow> connection \<Rightarrow> world \<Rightarrow> (failure + nat) \<times> connection \<times> world" where
  "fetchAllReviews now a conn w =
     (if length (locationIds conn) = 0 then (Inr 0, conn, w)
      else (case syncLocations now a conn (locationIds conn) 0 w of
              (totalCount, w') \<Rightarrow>
                (Inr totalCount, updateSyncStats totalCount True now conn, w')))"

section \<open>Webhook controller\<close>

text \<open>
  The decoded Pub/Sub message of a delivery. \<^verbatim>\<open>req.body.message\<close> is \<open>None\<close> when
  it is falsy, \<open>Some None\<close> when decoding its base64 JSON data throws, and
  \<open>Some (Some event)\<close> otherwise. \<open>resourceId\<close> is the resource to fetch:
  \<^verbatim>\<open>messageData.locationId\<close> of a Google event, \<^verbatim>\<open>messageData.videoId\<close> of a
  YouTube event. The connection lookup and the hand-off of the processing job are
  collaborators whose outcome (a value or a throw) is given. The job module exports one
  function, so the destructured import \<^verbatim>\<open>const { processWebhook } = require(...)\<close> of
  the controller is \<^verbatim>\<open>undefined\<close> and the hand-off throws a \<open>TypeError\<close>; the
  parameter covers that outcome and every other. \<open>success\<close> is the flag of a JSON
  body, absent from a plain-text body.
\<close>

record event =
  eventType :: string
  resourceId :: string

record response =
  code :: nat
  success :: "bool option"

definition handleGoogleWebhook ::
  "int \<Rightarrow> api \<Rightarrow> failure + connection option \<Rightarrow> failure + unit \<Rightarrow> event option option
     \<Rightarrow> world \<Rightarrow> response \<times> world" where
  "handleGoogleWebhook now a lookup job message w =
     (case message of
        None \<Rightarrow> (\<lparr>code = 400, success = Some False\<rparr>, w)
      | Some None \<Rightarrow> (\<lparr>code = 200, success = Some False\<rparr>, say (Err ''Google webhook error'') w)
      | Some (Some ev) \<Rightarrow>
          (case lookup of
             Inl e \<Rightarrow> (\<lparr>code = 200, success = Some False\<rparr>, say (Err ''Google webhook error'') w)
           | Inr None \<Rightarrow>
               (\<lparr>code = 200, success = Some True\<rparr>, say (Info ''No active connection found'') w)
           | Inr (Some conn) \<Rightarrow>
               if eventType ev = ''NEW_REVIEW'' \<or> eventType ev = ''UPDATE_REVIEW''
               then (case fetchReviews now conn (reviewsOf a (resourceId ev)) w of
                       (Inl e, w') \<Rightarrow>
                         (\<lparr>code = 200, success = Some True\<rparr>,
                          say (Err ''Error processing Google webhook'') w')
                     | (Inr r, w') \<Rightarrow>
                         (case job of
                            Inl e \<Rightarrow>
                              (\<lparr>code = 200, success = Some True\<rparr>,
                               say (Err ''Error processing Google webhook'') w')
                          | Inr u \<Rightarrow> (\<lparr>code = 200, success = Some True\<rparr>, w')))
               else (\<lparr>code = 200, success = Some True\<rparr>, w)))"

definition handleYouTubeWebhook ::
  "int \<Rightarrow> api \<Rightarrow> failure + connection option \<Rightarrow> failure + unit \<Rightarrow> event option option
     \<Rightarrow> world \<Rightarrow> response \<times> world" where
  "handleYouTubeWebhook now a lookup job message w =
     (case message of
        None \<Rightarrow> (\<lparr>code = 400, success = Some False\<rparr>, w)
      | Some None \<Rightarrow> (\<lparr>code = 200, success = Some False\<rparr>, say (Err ''YouTube webhook error'') w)
      | Some (Some ev) \<Rightarrow>
          (case lookup of
             Inl e \<Rightarrow> (\<lparr>code = 200, success = Some False\<rparr>, say (Err ''YouTube webhook error'') w)
           | Inr None \<Rightarrow>
               (\<lparr>code = 200, success = Some True\<rparr>,
                say (Info ''No active YouTube connection found'') w)
           | Inr (Some conn) \<Rightarrow>
               if eventType ev = ''NEW_COMMENT'' \<or> eventType ev = ''UPDATE_COMMENT''
               then (case fetchVideoComments now conn (threadsOf a (resourceId ev)) w of
                       (Inl e, w') \<Rightarrow>
                         (\<lparr>code = 200, success = Some True\<rparr>,
                          say (Err ''Error processing YouTube webhook'') w')
                     | (Inr r, w') \<Rightarrow>
                         (case job of
                            Inl e \<Rightarrow>
                              (\<lparr>code = 200, success = Some True\<rparr>,
                               say (Err ''Error processing YouTube webhook'') w')
                          | Inr u \<Rightarrow> (\<lparr>code = 200, success = Some True\<rparr>, w')))
               else (\<lparr>code = 200, success = Some True\<rparr>, w)))"

text \<open>
  \<^verbatim>\<open>app.use('/api/', limiter)\<close> stands before every route of the application. The
  limiter is the library \<^verbatim>\<open>express-rate-limit\<close>: it counts the requests of a client
  address inside the window and, once the count exceeds \<^verbatim>\<open>max\<close>, answers 429 with
  the configured text without calling the next handler. \<open>env\<close> is
  \<^verbatim>\<open>parseInt(process.env.RATE_LIMIT_MAX_REQUESTS)\<close>, \<open>None\<close> for \<^verbatim>\<open>NaN\<close>, which
  like 0 is falsy; \<open>hits\<close> is the number of earlier requests of the client in the
  current window.
\<close>

definition rateLimitMax :: "int option \<Rightarrow> int" where
  "rateLimitMax env = (case env of None \<Rightarrow> 100 | Some n \<Rightarrow> if n = 0 then 100 else n)"

definition limiter ::
  "int option \<Rightarrow> nat \<Rightarrow> (world \<Rightarrow> response \<times> world) \<Rightarrow> world \<Rightarrow> response \<times> world" where
  "limiter env hits handler w =
     (if rateLimitMax env < int (Suc hits) then (\<lparr>code = 429, success = None\<rparr>, w)
      else handler w)"

text \<open>
  The routes \<^verbatim>\<open>router.post('/google', ...)\<close> and \<^verbatim>\<open>router.post('/youtube', ...)\<close>
  of the router mounted at \<^verbatim>\<open>/api/webhooks\<close>, which puts no middleware of its own
  before the handlers: a delivery whose body the JSON parser has accepted passes the
  limiter and then reaches the handler. The middleware before the limiter (security
  headers, CORS headers, the body parsers, the request logger) answers no such request
  itself. A body that the parser rejects goes to the application's error handler, which
  is not among the sources, and is no delivery of this model.
\<close>

definition postWebhooksGoogle ::
  "int option \<Rightarrow> nat \<Rightarrow> int \<Rightarrow> api \<Rightarrow> failure + connection option \<Rightarrow> failure + unit
     \<Rightarrow> event option option \<Rightarrow> world \<Rightarrow> response \<times> world" where
  "postWebhooksGoogle env hits now a lookup job message w =
     limiter env hits (handleGoogleWebhook now a lookup job message) w"

definition postWebhooksYoutube ::
  "int option \<Rightarrow> nat \<Rightarrow> int \<Rightarrow> api \<Rightarrow> failure + connection option \<Rightarrow> failure + unit
     \<Rightarrow> event option option \<Rightarrow> world \<Rightarrow> response \<times> world" where
  "postWebhooksYoutube env hits now a lookup job message w =
     limiter env hits (handleYouTubeWebhook now a lookup job message) w"

section \<open>Example worlds\<close>

text \<open>
  Organization 7 with three active agents: A holds two open interactions (both unread),
  B none (its two interactions are resolved), C one (assigned). Listed before them are
  three users without any interaction who are not active agents of the organization: an
  inactive agent, an agent of organization 8 and a manager.
\<close>

definition agentA :: user where
  "agentA = \<lparr>uid = 1, uorg = 7, role = ''agent'', isActive = True\<rparr>"

definition agentB :: user where
  "agentB = \<lparr>uid = 2, uorg = 7, role = ''agent'', isActive = True\<rparr>"

definition agentC :: user where
  "agentC = \<lparr>uid = 3, uorg = 7, role = ''agent'', isActive = True\<rparr>"

definition idleInactive :: user where
  "idleInactive = \<lparr>uid = 4, uorg = 7, role = ''agent'', isActive = False\<rparr>"

definition idleForeign :: user where
  "idleForeign = \<lparr>uid = 5, uorg = 8, role = ''agent'', isActive = True\<rparr>"

definition idleManager :: user where
  "idleManager = \<lparr>uid = 6, uorg = 7, role = ''manager'', isActive = True\<rparr>"

definition held :: "nat \<Rightarrow> nat \<Rightarrow> string \<Rightarrow> interaction" where
  "held k a st =
     blank\<lparr>iid := k, organization := 7, status := Some st, assignedTo := Some a\<rparr>"

definition incoming :: interaction where
  "incoming = blank\<lparr>iid := 10, organization := 7, status := Some ''unread''\<rparr>"

definition abcWorld :: world where
  "abcWorld = \<lparr>interactions = [held 11 1 ''unread'', held 12 1 ''unread'',
        held 13 3 ''assigned'', held 14 2 ''resolved'', held 15 2 ''resolved'', incoming],
      users = [idleInactive, idleForeign, idleManager, agentA, agentB, agentC],
      outbox = [], console = []\<rparr>"

text \<open>
  Organization 7 at time 100000000, when the trailing 24 hours begin at 13600000. The
  comment \<open>arriving\<close> on post \<open>p1\<close> has just been ingested. \<open>negComment k\<close> is a stored
  negative comment of the organization on the same post inside the window; the four
  records after it differ from it in one respect each: another organization, another
  post, a positive sentiment, a creation time before the window. The staff lists an
  inactive manager and a manager of organization 8 before the agent and the active admin
  of organization 7, and a second active manager after them; \<open>unmanaged\<close> is the staff
  without its active admin and manager. The provider \<open>negativeAI\<close> answers the
  sentiment request with negative and fails to draft a reply.
\<close>

definition negComment :: "nat \<Rightarrow> interaction" where
  "negComment k = blank\<lparr>iid := k, organization := 7, itype := ''comment'',
      postId := Some ''p1'', sentiment := Some ''negative'', createdAt := 99000000\<rparr>"

definition arriving :: interaction where
  "arriving = blank\<lparr>iid := 20, organization := 7, itype := ''comment'',
      postId := Some ''p1'', status := Some ''unread'', createdAt := 99999000\<rparr>"

definition otherOrg :: interaction where
  "otherOrg = (negComment 31)\<lparr>organization := 8\<rparr>"

definition otherPost :: interaction where
  "otherPost = (negComment 32)\<lparr>postId := Some ''p2''\<rparr>"

definition praise :: interaction where
  "praise = (negComment 33)\<lparr>sentiment := Some ''positive''\<rparr>"

definition stale :: interaction where
  "stale = (negComment 34)\<lparr>createdAt := 1000\<rparr>"

definition formerManager :: user where
  "formerManager = \<lparr>uid = 7, uorg = 7, role = ''manager'', isActive = False\<rparr>"

definition foreignManager :: user where
  "foreignManager = \<lparr>uid = 8, uorg = 8, role = ''manager'', isActive = True\<rparr>"

definition admin :: user where
  "admin = \<lparr>uid = 9, uorg = 7, role = ''admin'', isActive = True\<rparr>"

definition staff :: "user list" where
  "staff = [formerManager, foreignManager, agentA, admin, idleManager]"

definition unmanaged :: "user list" where
  "unmanaged = [formerManager, foreignManager, agentA]"

definition spikeWorld :: "nat list \<Rightarrow> user list \<Rightarrow> world" where
  "spikeWorld ks us =
     \<lparr>interactions = map negComment ks @ [otherOrg, otherPost, praise, stale, arriving],
      users = us, outbox = [], console = []\<rparr>"

definition negativeAI :: provider where
  "negativeAI = \<lparr>sentiment_reply = Some ''negative'', intent_reply = Some ''complaint'',
      topics_reply = None, response_reply = None\<rparr>"

text \<open>A world holding one freshly ingested comment and no users.\<close>

definition freshComment :: interaction where
  "freshComment = blank\<lparr>iid := 5, organization := 7, itype := ''comment'',
      status := Some ''unread''\<rparr>"

definition oneDocWorld :: world where
  "oneDocWorld = \<lparr>interactions = [freshComment], users = [], outbox = [], console = []\<rparr>"

text \<open>
  The same comment after an earlier enrichment run has left a draft on it, queued for
  processing once more.
\<close>

definition draftedComment :: interaction where
  "draftedComment = freshComment\<lparr>aiSuggestion := Some ''OLD DRAFT''\<rparr>"

definition draftedWorld :: world where
  "draftedWorld = \<lparr>interactions = [draftedComment], users = [], outbox = [], console = []\<rparr>"

text \<open>
  An empty world, an API whose every request fails, an API whose every request returns
  no item, a Google connection without locations, and a review event.
\<close>

definition emptyWorld :: world where
  "emptyWorld = \<lparr>interactions = [], users = [], outbox = [], console = []\<rparr>"

definition silentApi :: api where
  "silentApi = \<lparr>videos = None, threadsOf = (\<lambda>v. None), reviewsOf = (\<lambda>l. None)\<rparr>"

definition emptyApi :: api where
  "emptyApi = \<lparr>videos = Some [], threadsOf = (\<lambda>v. Some []), reviewsOf = (\<lambda>l. Some [])\<rparr>"

definition googleConn :: connection where
  "googleConn = \<lparr>cid = 1, corg = 7, cplatform = ''google'', channelId = None,
     locationIds = [], cstatus = ''connected'', lastSyncAt = None, lastError = None,
     totalInteractionsSynced = 0, lastSyncCount = 0, failedSyncAttempts = 0\<rparr>"

definition reviewEvent :: event where
  "reviewEvent = \<lparr>eventType = ''NEW_REVIEW'', resourceId = ''loc1''\<rparr>"

text \<open>
  A YouTube connection in error state with two earlier failures, and an API that lists
  two videos and fails on the comments of both.
\<close>

definition youtubeConn :: connection where
  "youtubeConn = \<lparr>cid = 2, corg = 7, cplatform = ''youtube'', channelId = Some ''ch1'',
     locationIds = [], cstatus = ''error'', lastSyncAt = None, lastError = None,
     totalInteractionsSynced = 40, lastSyncCount = 0, failedSyncAttempts = 2\<rparr>"

definition brokenVideosApi :: api where
  "brokenVideosApi = \<lparr>videos = Some [Some ''v1'', Some ''v2''], threadsOf = (\<lambda>v. None),
     reviewsOf = (\<lambda>l. None)\<rparr>"

text \<open>A five-star review.\<close>

definition fiveStars :: review where
  "fiveStars = \<lparr>reviewId = ''r1'', comment = Some ''Lovely place'', starRating = Some 5\<rparr>"

text \<open>
  An Instagram comment delivery, the document its first delivery for an organization
  stores in the empty world, and a delivery of two comment changes of which the first
  has no value.
\<close>

definition igComment :: ig_value where
  "igComment = \<lparr>v_id = ''c1'', v_text = Some ''Nice'', v_from = Some ''u1'',
     v_media = Some ''m1'', v_conversation = None\<rparr>"

definition igPayload :: "entry list option" where
  "igPayload = Some [\<lparr>changes = Some [\<lparr>cfield = ''comments'', cvalue = Some igComment\<rparr>]\<rparr>]"

definition storedComment :: "nat \<Rightarrow> interaction" where
  "storedComment org = (commentUpdate org igComment blank)\<lparr>iid := 1, createdAt := 100\<rparr>"

definition afterFirst :: "nat \<Rightarrow> world" where
  "afterFirst org = emptyWorld\<lparr>interactions := [storedComment org]\<rparr>"

definition brokenBatch :: "entry list option" where
  "brokenBatch = Some [\<lparr>changes = Some [\<lparr>cfield = ''comments'', cvalue = None\<rparr>,
                                         \<lparr>cfield = ''comments'', cvalue = Some igComment\<rparr>]\<rparr>]"

text \<open>
  A world in which organization 7 holds a YouTube comment whose platform id is that of
  the five-star review.
\<close>

definition youtubeStored :: interaction where
  "youtubeStored = blank\<lparr>iid := 1, organization := 7, platform := ''youtube'',
     itype := ''comment'', platformId := ''r1'', status := Some ''unread''\<rparr>"

definition youtubeWorld :: world where
  "youtubeWorld = emptyWorld\<lparr>interactions := [youtubeStored]\<rparr>"

text \<open>Two well-formed YouTube threads and one without a readable snippet.\<close>

definition goodThread :: "string \<Rightarrow> yt_thread" where
  "goodThread k = \<lparr>t_id = k, t_top = Some \<lparr>textDisplay = Some ''great video''\<rparr>,
     totalReplyCount = 0, t_replies = None\<rparr>"

definition badThread :: yt_thread where
  "badThread = \<lparr>t_id = ''t2'', t_top = None, totalReplyCount = 0, t_replies = None\<rparr>"

text \<open>The provider failing at every stage.\<close>

definition allFailed :: provider where
  "allFailed = \<lparr>sentiment_reply = None, intent_reply = None, topics_reply = None,
      response_reply = None\<rparr>"

section \<open>Auxiliary facts about the store and the routing steps\<close>

lemma find_save_self:
  "find (\<lambda>d. iid d = iid doc) (map (\<lambda>d. if iid d = iid doc then doc else d) xs)
     = (case find (\<lambda>d. iid d = iid doc) xs of None \<Rightarrow> None | Some _ \<Rightarrow> Some doc)"
  by (induction xs) auto

lemma findById_save:
  "iid doc = k \<Longrightarrow>
   findById k (save doc w) = (case findById k w of None \<Rightarrow> None | Some _ \<Rightarrow> Some doc)"
  using find_save_self [of doc "interactions w"] by (simp add: findById_def save_def)

lemma findById_save_present:
  "iid doc = k \<Longrightarrow> findById k w \<noteq> None \<Longrightarrow> findById k (save doc w) = Some doc"
  by (auto simp: findById_save)

lemma findById_say [simp]: "findById k (say l w) = findById k w"
  by (simp add: findById_def say_def)

lemma findById_sendMail [simp]: "findById k (sendMail e w) = findById k w"
  by (simp add: findById_def sendMail_def)

lemma find_iid: "find (\<lambda>d. iid d = k) xs = Some d \<Longrightarrow> iid d = k"
  by (auto simp: find_Some_iff)

lemma findById_iid: "findById k w = Some d \<Longrightarrow> iid d = k"
  unfolding findById_def by (rule find_iid)

lemma console_say: "console (say l w) = console w @ [l]"
  by (simp add: say_def)

lemma console_sendMail [simp]: "console (sendMail e w) = console w"
  by (simp add: sendMail_def)

lemma console_save [simp]: "console (save d w) = console w"
  by (simp add: save_def)

lemma iid_enrich [simp]: "iid (enrich ai doc) = iid doc"
  by (simp add: enrich_def Let_def split: option.splits)

lemma enrich_fields:
  "sentiment (enrich ai doc) = Some (sr_sentiment (analyzeSentiment (sentiment_reply ai)))"
  "sentimentScore (enrich ai doc) = Some (sr_score (analyzeSentiment (sentiment_reply ai)))"
  "intent (enrich ai doc) = Some (detectIntent (intent_reply ai))"
  "topics (enrich ai doc) = extractTopics (topics_reply ai)"
  "aiSuggestion (enrich ai doc) =
     (case generateResponse (response_reply ai) of None \<Rightarrow> aiSuggestion doc | Some r \<Rightarrow> Some r)"
  by (simp_all add: enrich_def Let_def split: option.splits)

lemma assignToAgent_iid: "iid (fst (assignToAgent doc w)) = iid doc"
  by (simp add: assignToAgent_def assignTo_def Let_def split: list.splits prod.splits)

lemma assignToAgent_present:
  "findById (iid doc) w \<noteq> None \<Longrightarrow> findById (iid doc) (snd (assignToAgent doc w)) \<noteq> None"
  by (auto simp: assignToAgent_def assignTo_def Let_def findById_save
           split: list.splits prod.splits option.splits)

lemma assignToAgent_enrichment:
  "sentiment (fst (assignToAgent doc w)) = sentiment doc"
  "sentimentScore (fst (assignToAgent doc w)) = sentimentScore doc"
  "intent (fst (assignToAgent doc w)) = intent doc"
  "topics (fst (assignToAgent doc w)) = topics doc"
  "aiSuggestion (fst (assignToAgent doc w)) = aiSuggestion doc"
  "autoReplyEligible (fst (assignToAgent doc w)) = autoReplyEligible doc"
  by (simp_all add: assignToAgent_def assignTo_def Let_def split: list.splits prod.splits)

lemma assignToAgent_console:
  "set (console w) \<subseteq> set (console (snd (assignToAgent doc w)))"
  by (auto simp: assignToAgent_def assignTo_def Let_def console_say
           split: list.splits prod.splits)

lemma checkNegativeSpike_iid: "iid (fst (checkNegativeSpike now doc w)) = iid doc"
  by (simp add: checkNegativeSpike_def Let_def split: option.splits)

lemma checkNegativeSpike_present:
  "findById k (snd (checkNegativeSpike now doc w)) = findById k w"
  by (simp add: checkNegativeSpike_def Let_def split: option.splits)

lemma checkNegativeSpike_enrichment:
  "sentiment (fst (checkNegativeSpike now doc w)) = sentiment doc"
  "sentimentScore (fst (checkNegativeSpike now doc w)) = sentimentScore doc"
  "intent (fst (checkNegativeSpike now doc w)) = intent doc"
  "topics (fst (checkNegativeSpike now doc w)) = topics doc"
  "aiSuggestion (fst (checkNegativeSpike now doc w)) = aiSuggestion doc"
  "autoReplyEligible (fst (checkNegativeSpike now doc w)) = autoReplyEligible doc"
  by (simp_all add: checkNegativeSpike_def Let_def split: option.splits)

lemma checkNegativeSpike_console:
  "set (console w) \<subseteq> set (console (snd (checkNegativeSpike now doc w)))"
  by (auto simp: checkNegativeSpike_def Let_def console_say split: option.splits)

lemma route_iid: "iid (fst (route ai doc w)) = iid doc"
  by (simp add: route_def Let_def assignToAgent_iid)

lemma route_present:
  "findById (iid doc) w \<noteq> None \<Longrightarrow> findById (iid doc) (snd (route ai doc w)) \<noteq> None"
  using assignToAgent_present [of "doc\<lparr>autoReplyEligible := Some (canAutoReply doc)\<rparr>"
      "say (Info ''Assigning to agent...'') w"]
  by (simp add: route_def Let_def)

lemma route_enrichment:
  "sentiment (fst (route ai doc w)) = sentiment doc"
  "sentimentScore (fst (route ai doc w)) = sentimentScore doc"
  "intent (fst (route ai doc w)) = intent doc"
  "topics (fst (route ai doc w)) = topics doc"
  "aiSuggestion (fst (route ai doc w)) = aiSuggestion doc"
  "autoReplyEligible (fst (route ai doc w)) = Some (canAutoReply doc)"
  by (simp_all add: route_def Let_def assignToAgent_enrichment)

lemma route_console:
  "Info ''Interaction is eligible for auto-reply'' \<in> set (console (snd (route ai doc w)))
   \<or> Info ''Assigning to agent...'' \<in> set (console (snd (route ai doc w)))"
  using assignToAgent_console [of "say (Info ''Assigning to agent...'') w"
      "doc\<lparr>autoReplyEligible := Some (canAutoReply doc)\<rparr>"]
  by (auto simp: route_def Let_def console_say)

lemma route_console_no_draft:
  "generateResponse (response_reply ai) = None \<Longrightarrow>
   Info ''Assigning to agent...'' \<in> set (console (snd (route ai doc w)))"
  using assignToAgent_console [of "say (Info ''Assigning to agent...'') w"
      "doc\<lparr>autoReplyEligible := Some (canAutoReply doc)\<rparr>"]
  by (auto simp: route_def Let_def console_say)

lemma spikeStep_iid: "iid (fst (spikeStep now d w)) = iid d"
  by (simp add: spikeStep_def checkNegativeSpike_iid)

lemma spikeStep_present: "findById k (snd (spikeStep now d w)) = findById k w"
  by (simp add: spikeStep_def checkNegativeSpike_present)

lemma spikeStep_enrichment:
  "sentiment (fst (spikeStep now d w)) = sentiment d"
  "sentimentScore (fst (spikeStep now d w)) = sentimentScore d"
  "intent (fst (spikeStep now d w)) = intent d"
  "topics (fst (spikeStep now d w)) = topics d"
  "aiSuggestion (fst (spikeStep now d w)) = aiSuggestion d"
  "autoReplyEligible (fst (spikeStep now d w)) = autoReplyEligible d"
  by (simp_all add: spikeStep_def checkNegativeSpike_enrichment)

lemma spikeStep_console: "set (console w) \<subseteq> set (console (snd (spikeStep now d w)))"
  using checkNegativeSpike_console [of w now d] by (simp add: spikeStep_def)

lemma processAI_run:
  "findById k w = Some doc \<Longrightarrow>
   processAI now ai k w
     = Inr (say (Info ''AI processing completed'') (save (finalDoc now ai doc w) (preSave now ai doc w)))"
  by (simp add: processAI_def finalDoc_def preSave_def case_prod_beta)

lemma finalDoc_iid: "iid (finalDoc now ai doc w) = iid doc"
  by (simp add: finalDoc_def spikeStep_iid route_iid)

lemma preSave_present:
  "findById (iid doc) w \<noteq> None \<Longrightarrow> findById (iid doc) (preSave now ai doc w) \<noteq> None"
  using route_present [of "enrich ai doc" w ai] by (simp add: preSave_def spikeStep_present)

lemma processAI_stored:
  assumes "findById k w = Some doc"
  shows "findById k (say (Info ''AI processing completed'')
           (save (finalDoc now ai doc w) (preSave now ai doc w))) = Some (finalDoc now ai doc w)"
proof -
  have k: "iid doc = k" using assms by (rule findById_iid)
  have p: "findById k (preSave now ai doc w) \<noteq> None"
    using preSave_present [of doc w now ai] assms k by simp
  have i: "iid (finalDoc now ai doc w) = k" using k by (simp add: finalDoc_iid)
  show ?thesis by (simp add: findById_save_present [OF i p])
qed

lemma finalDoc_fields:
  "sentiment (finalDoc now ai doc w) = Some (sr_sentiment (analyzeSentiment (sentiment_reply ai)))"
  "sentimentScore (finalDoc now ai doc w) = Some (sr_score (analyzeSentiment (sentiment_reply ai)))"
  "intent (finalDoc now ai doc w) = Some (detectIntent (intent_reply ai))"
  "topics (finalDoc now ai doc w) = extractTopics (topics_reply ai)"
  "aiSuggestion (finalDoc now ai doc w) =
     (case generateResponse (response_reply ai) of None \<Rightarrow> aiSuggestion doc | Some r \<Rightarrow> Some r)"
  "autoReplyEligible (finalDoc now ai doc w) = Some (canAutoReply (enrich ai doc))"
  by (simp_all add: finalDoc_def spikeStep_enrichment route_enrichment enrich_fields)

lemma preSave_console:
  "set (console (snd (route ai (enrich ai doc) w))) \<subseteq> set (console (preSave now ai doc w))"
  by (simp add: preSave_def spikeStep_console)

lemma hd_insort_key:
  "hd (insort_key f x ys) = (if ys = [] then x else if f x \<le> f (hd ys) then x else hd ys)"
  by (cases ys) auto

text \<open>The head of a stably sorted list is the first element of least key.\<close>

lemma sort_key_first_min:
  "xs \<noteq> [] \<Longrightarrow> \<exists>pre post. xs = pre @ hd (sort_key f xs) # post
      \<and> (\<forall>b\<in>set pre. f (hd (sort_key f xs)) < f b)
      \<and> (\<forall>b\<in>set post. f (hd (sort_key f xs)) \<le> f b)"
proof (induction xs)
  case Nil
  then show ?case by simp
next
  case (Cons x xs)
  show ?case
  proof (cases "xs = []")
    case True
    then show ?thesis by (intro exI[of _ "[]"]) simp
  next
    case False
    let ?m = "hd (sort_key f xs)"
    from Cons.IH[OF False] obtain pre post where
      h: "xs = pre @ ?m # post" "\<forall>b\<in>set pre. f ?m < f b" "\<forall>b\<in>set post. f ?m \<le> f b"
      by blast
    have ne: "sort_key f xs \<noteq> []"
      using False by (metis length_sort list.size(3) length_0_conv)
    show ?thesis
    proof (cases "f x \<le> f ?m")
      case True
      then have e: "hd (sort_key f (x # xs)) = x" using ne by (simp add: hd_insort_key)
      have "set xs = set (pre @ ?m # post)" using h(1) by simp
      then have "set xs = set pre \<union> {?m} \<union> set post" by simp
      then have "\<forall>b\<in>set xs. f x \<le> f b" using True h(2,3) by fastforce
      then show ?thesis unfolding e
        by (intro exI[of _ "[]"] exI[of _ xs]) simp
    next
      case False
      then have e: "hd (sort_key f (x # xs)) = ?m" using ne by (simp add: hd_insort_key)
      have "x # xs = (x # pre) @ ?m # post" using h(1) by simp
      moreover have "\<forall>b\<in>set (x # pre). f ?m < f b" using h(2) False by auto
      ultimately show ?thesis unfolding e using h(3) by blast
    qed
  qed
qed

lemma assignToAgent_choice:
  assumes ne: "activeAgents doc w \<noteq> []"
  shows "\<exists>pre a post. activeAgents doc w = pre @ a # post
    \<and> (\<forall>b\<in>set pre. workload w a < workload w b)
    \<and> (\<forall>b\<in>set post. workload w a \<le> workload w b)
    \<and> assignToAgent doc w =
        (doc\<lparr>assignedTo := Some (uid a), status := Some ''assigned''\<rparr>,
         say (Info ''Assigned interaction to agent'')
           (sendMail (AssignmentNotification (uid a) (iid doc))
              (save (doc\<lparr>assignedTo := Some (uid a), status := Some ''assigned''\<rparr>) w)))"
proof -
  let ?wl = "map (\<lambda>a. (a, workload w a)) (activeAgents doc w)"
  have ne': "?wl \<noteq> []" using ne by simp
  from sort_key_first_min [OF ne', of snd] obtain pre post where
    h: "?wl = pre @ hd (sort_key snd ?wl) # post"
       "\<forall>b\<in>set pre. snd (hd (sort_key snd ?wl)) < snd b"
       "\<forall>b\<in>set post. snd (hd (sort_key snd ?wl)) \<le> snd b" by blast
  obtain a n where an: "hd (sort_key snd ?wl) = (a, n)" by (cases "hd (sort_key snd ?wl)")
  have sne: "sort_key snd ?wl \<noteq> []" using ne' by (metis length_sort length_0_conv)
  then obtain rest where s: "sort_key snd ?wl = (a, n) # rest"
    using an by (cases "sort_key snd ?wl") auto
  have "map fst ?wl = activeAgents doc w" by (simp add: comp_def)
  then have split: "activeAgents doc w = map fst pre @ a # map fst post"
    using h(1) an by (metis (no_types, lifting) fst_conv list.simps(9) map_append)
  have snd_wl: "\<forall>p\<in>set ?wl. snd p = workload w (fst p)" by auto
  have "(a, n) \<in> set ?wl" using h(1) an by (metis in_set_conv_decomp)
  then have n: "n = workload w a" using snd_wl by fastforce
  have pre_sub: "set pre \<subseteq> set ?wl" using h(1) by (metis set_append Un_upper1)
  have post_sub: "set post \<subseteq> set ?wl" using h(1)
    by (metis set_append set_subset_Cons Un_upper2 subset_trans)
  have lpre: "\<forall>b\<in>set (map fst pre). workload w a < workload w b"
    using h(2) an n pre_sub snd_wl by fastforce
  have lpost: "\<forall>b\<in>set (map fst post). workload w a \<le> workload w b"
    using h(3) an n post_sub snd_wl by fastforce
  have res: "assignToAgent doc w =
      (doc\<lparr>assignedTo := Some (uid a), status := Some ''assigned''\<rparr>,
       say (Info ''Assigned interaction to agent'')
         (sendMail (AssignmentNotification (uid a) (iid doc))
            (save (doc\<lparr>assignedTo := Some (uid a), status := Some ''assigned''\<rparr>) w)))"
    using ne s by (simp add: assignToAgent_def assignTo_def Let_def)
  show ?thesis
    apply (rule exI[of _ "map fst pre"], rule exI[of _ a], rule exI[of _ "map fst post"])
    using split lpre lpost res by simp
qed

lemma abc_agents: "activeAgents incoming abcWorld = [agentA, agentB, agentC]"
  by (simp add: activeAgents_def abcWorld_def agentA_def agentB_def agentC_def idleInactive_def
        idleForeign_def idleManager_def incoming_def blank_def)

lemma abc_load:
  "workload abcWorld agentA = 2" "workload abcWorld agentB = 0" "workload abcWorld agentC = 1"
  by (simp_all add: workload_def countDocuments_def abcWorld_def agentA_def agentB_def
        agentC_def incoming_def held_def blank_def)

lemma abc_assigned: "assignedTo (fst (assignToAgent incoming abcWorld)) = Some (uid agentB)"
  by (simp add: assignToAgent_def abc_agents abc_load assignTo_def Let_def)

lemma checkNegativeSpike_cases:
  assumes "postId doc = Some p" and "p \<noteq> []"
  shows "checkNegativeSpike now doc w =
     (if 3 \<le> countDocuments (negativeOnPost now doc p) w
      then (doc\<lparr>priority := Some ''urgent'', urgency := Some ''urgent''\<rparr>,
            (case findManager doc w of
               None \<Rightarrow> (\<lambda>x. x)
             | Some m \<Rightarrow> sendMail (NegativeSpikeAlert (uid m) p
                                     (countDocuments (negativeOnPost now doc p) w)))
              (say (Info ''ALERT: Negative spike detected!'')
                 (say (Info ''Negative comment count for post'') w)))
      else (doc, say (Info ''Negative comment count for post'') w))"
  using assms
  by (simp add: checkNegativeSpike_def Let_def findManager_def say_def countDocuments_def
           split: option.splits)

lemma count_replace:
  "distinct (map iid xs) \<Longrightarrow> x \<in> set xs \<Longrightarrow> iid x = k \<Longrightarrow>
   length (filter P (map (\<lambda>d. if iid d = k then d1 else d) xs))
     = length (filter (\<lambda>d. iid d \<noteq> k \<and> P d) xs) + (if P d1 then 1 else 0)"
proof (induction xs)
  case Nil then show ?case by simp
next
  case (Cons y ys)
  show ?case
  proof (cases "iid y = k")
    case True
    then have "\<forall>d\<in>set ys. iid d \<noteq> k" using Cons.prems(1) by (auto simp: image_iff)
    then have "map (\<lambda>d. if iid d = k then d1 else d) ys = ys"
      "filter (\<lambda>d. iid d \<noteq> k \<and> P d) ys = filter P ys"
      by (auto intro: map_idI filter_cong)
    then show ?thesis using True by simp
  next
    case False
    then have "x \<in> set ys" using Cons.prems(2,3) by auto
    then show ?thesis using Cons.IH Cons.prems False by simp
  qed
qed

lemma save_twice:
  "iid d1 = k \<Longrightarrow> map (\<lambda>d. if iid d = k then d2 else d) (map (\<lambda>d. if iid d = k then d1 else d) xs)
     = map (\<lambda>d. if iid d = k then d2 else d) xs"
  by (induction xs) auto

lemma enrich_keeps:
  "organization (enrich ai doc) = organization doc"
  "itype (enrich ai doc) = itype doc"
  "postId (enrich ai doc) = postId doc"
  "createdAt (enrich ai doc) = createdAt doc"
  "priority (enrich ai doc) = priority doc"
  "urgency (enrich ai doc) = urgency doc"
  by (simp_all add: enrich_def Let_def split: option.splits)

lemma findById_mem: "findById k w = Some d \<Longrightarrow> d \<in> set (interactions w)"
  by (auto simp: findById_def find_Some_iff)

lemma processAI_negative_comment:
  assumes found: "findById k w = Some doc"
    and dist: "distinct (map iid (interactions w))"
    and ty: "itype doc = ''comment''"
    and post: "postId doc = Some p" "p \<noteq> []"
    and neg: "sr_sentiment (analyzeSentiment (sentiment_reply ai)) = ''negative''"
    and recent: "now - 86400000 \<le> createdAt doc"
    and agents: "filter (\<lambda>u. uorg u = organization doc \<and> role u = ''agent'' \<and> isActive u)
                   (users w) \<noteq> []"
  shows "\<exists>w' d' a. processAI now ai k w = Inr w'
     \<and> a \<in> set (users w) \<and> uorg a = organization doc \<and> role a = ''agent'' \<and> isActive a
     \<and> interactions w' = map (\<lambda>d. if iid d = k then d' else d) (interactions w)
     \<and> assignedTo d' = Some (uid a) \<and> sentiment d' = Some ''negative''
     \<and> (let n = Suc (length (filter (\<lambda>d. iid d \<noteq> k \<and> organization d = organization doc
                  \<and> postId d = Some p \<and> sentiment d = Some ''negative''
                  \<and> now - 86400000 \<le> createdAt d) (interactions w)))
        in (n \<le> 2 \<longrightarrow> urgency d' = urgency doc \<and> priority d' = priority doc
              \<and> outbox w' = outbox w @ [AssignmentNotification (uid a) k])
         \<and> (3 \<le> n \<longrightarrow> urgency d' = Some ''urgent'' \<and> priority d' = Some ''urgent''
              \<and> outbox w' = outbox w @ AssignmentNotification (uid a) k #
                  (case find (\<lambda>u. uorg u = organization doc
                            \<and> (role u = ''manager'' \<or> role u = ''admin'') \<and> isActive u) (users w)
                   of None \<Rightarrow> [] | Some m \<Rightarrow> [NegativeSpikeAlert (uid m) p n])))"
proof -
  let ?n = "Suc (length (filter (\<lambda>d. iid d \<noteq> k \<and> organization d = organization doc
                  \<and> postId d = Some p \<and> sentiment d = Some ''negative''
                  \<and> now - 86400000 \<le> createdAt d) (interactions w)))"
  let ?e = "enrich ai doc"
  let ?d0 = "?e\<lparr>autoReplyEligible := Some (canAutoReply ?e)\<rparr>"
  let ?w0 = "say (Info ''Assigning to agent...'') w"
  have k: "iid doc = k" using found by (rule findById_iid)
  have mem: "doc \<in> set (interactions w)" using found by (rule findById_mem)
  have se: "sentiment ?e = Some ''negative''" by (simp add: enrich_fields neg)
  have nc: "\<not> canAutoReply ?e" by (simp add: canAutoReply_def se)
  have r: "route ai ?e w = assignToAgent ?d0 ?w0" by (simp add: route_def Let_def nc)
  have ag: "activeAgents ?d0 ?w0 = filter (\<lambda>u. uorg u = organization doc \<and> role u = ''agent''
       \<and> isActive u) (users w)"
    by (simp add: activeAgents_def say_def enrich_keeps)
  then have "activeAgents ?d0 ?w0 \<noteq> []" using agents by simp
  from assignToAgent_choice [OF this] obtain pre a post where
    sp: "activeAgents ?d0 ?w0 = pre @ a # post" and
    res0: "assignToAgent ?d0 ?w0 =
        (?d0\<lparr>assignedTo := Some (uid a), status := Some ''assigned''\<rparr>,
         say (Info ''Assigned interaction to agent'')
           (sendMail (AssignmentNotification (uid a) (iid ?d0))
              (save (?d0\<lparr>assignedTo := Some (uid a), status := Some ''assigned''\<rparr>) ?w0)))"
    by blast
  define d1 where "d1 = ?d0\<lparr>assignedTo := Some (uid a), status := Some ''assigned''\<rparr>"
  define w1 where "w1 = say (Info ''Assigned interaction to agent'')
           (sendMail (AssignmentNotification (uid a) k) (save d1 ?w0))"
  have res: "assignToAgent ?d0 ?w0 = (d1, w1)" using res0 by (simp add: k d1_def w1_def)
  have "a \<in> set (filter (\<lambda>u. uorg u = organization doc \<and> role u = ''agent''
       \<and> isActive u) (users w))" using sp ag by simp
  then have a: "a \<in> set (users w)" "uorg a = organization doc" "role a = ''agent''" "isActive a"
    by simp_all
  have f1: "iid d1 = k" "organization d1 = organization doc" "postId d1 = Some p"
    "sentiment d1 = Some ''negative''" "itype d1 = ''comment''" "createdAt d1 = createdAt doc"
    "urgency d1 = urgency doc" "priority d1 = priority doc" "assignedTo d1 = Some (uid a)"
    by (simp_all add: d1_def enrich_keeps post se ty k)
  have i1: "interactions w1 = map (\<lambda>d. if iid d = k then d1 else d) (interactions w)"
    by (simp add: w1_def say_def sendMail_def save_def f1)
  have u1: "users w1 = users w" by (simp add: w1_def say_def sendMail_def save_def)
  have o1: "outbox w1 = outbox w @ [AssignmentNotification (uid a) k]"
    by (simp add: w1_def say_def sendMail_def save_def)
  have P1: "negativeOnPost now d1 p d1"
    using recent by (simp add: negativeOnPost_def day_ms_def f1)
  have cnt: "countDocuments (negativeOnPost now d1 p) w1 = ?n"
    unfolding countDocuments_def i1
    using count_replace [OF dist mem k, of "negativeOnPost now d1 p" d1] P1
    by (simp add: negativeOnPost_def day_ms_def f1)
  have mg: "findManager d1 w1 = find (\<lambda>u. uorg u = organization doc
                 \<and> (role u = ''manager'' \<or> role u = ''admin'') \<and> isActive u) (users w)"
    by (simp add: findManager_def u1 f1)
  have st: "spikeStep now d1 w1 = checkNegativeSpike now d1 w1"
    by (simp add: spikeStep_def f1)
  note cases = checkNegativeSpike_cases [OF f1(3) post(2), of now w1, unfolded cnt mg]
  define d2 where "d2 = fst (checkNegativeSpike now d1 w1)"
  define w2 where "w2 = snd (checkNegativeSpike now d1 w1)"
  define w' where "w' = say (Info ''AI processing completed'') (save d2 w2)"
  have run: "processAI now ai k w = Inr w'"
    by (simp add: processAI_def found r res st case_prod_beta w'_def d2_def w2_def)
  have k2: "iid d2 = k" by (simp add: d2_def checkNegativeSpike_iid f1)
  have i2: "interactions w2 = interactions w1"
    by (simp add: w2_def cases say_def sendMail_def split: option.splits)
  have ints: "interactions w' = map (\<lambda>d. if iid d = k then d2 else d) (interactions w)"
    using save_twice [OF f1(1), of d2 "interactions w"]
    by (simp add: w'_def say_def save_def k2 i2 i1)
  have asg: "assignedTo d2 = Some (uid a)" "sentiment d2 = Some ''negative''"
    by (simp_all add: d2_def cases f1)
  have ow: "outbox w' = outbox w2" by (simp add: w'_def say_def save_def)
  have low: "?n \<le> 2 \<longrightarrow> urgency d2 = urgency doc \<and> priority d2 = priority doc
              \<and> outbox w' = outbox w @ [AssignmentNotification (uid a) k]"
    by (auto simp: ow d2_def w2_def cases say_def o1 f1)
  have high: "3 \<le> ?n \<longrightarrow> urgency d2 = Some ''urgent'' \<and> priority d2 = Some ''urgent''
              \<and> outbox w' = outbox w @ AssignmentNotification (uid a) k #
                  (case find (\<lambda>u. uorg u = organization doc
                            \<and> (role u = ''manager'' \<or> role u = ''admin'') \<and> isActive u) (users w)
                   of None \<Rightarrow> [] | Some m \<Rightarrow> [NegativeSpikeAlert (uid m) p ?n])"
    by (auto simp: ow d2_def w2_def cases say_def sendMail_def o1 split: option.splits)
  show ?thesis
    apply (rule exI[of _ w'], rule exI[of _ d2], rule exI[of _ a])
    unfolding Let_def using run a ints asg low high by blast
qed

lemma negativeAI_negative:
  "sr_sentiment (analyzeSentiment (sentiment_reply negativeAI)) = ''negative''"
  by (simp add: negativeAI_def analyzeSentiment_def Let_def toLowerCase.simps trim_def
        dropLeading.simps whiteSpace_def lower_char_def)

lemma spike_found: "findById 20 (spikeWorld [21, 22, 23] us) = Some arriving"
  "findById 20 (spikeWorld [21, 22] us) = Some arriving"
  "findById 20 (spikeWorld [21] us) = Some arriving"
  by (simp_all add: findById_def spikeWorld_def negComment_def otherOrg_def otherPost_def
        praise_def stale_def arriving_def blank_def)

lemma spike_distinct: "distinct (map iid (interactions (spikeWorld [21, 22, 23] us)))"
  "distinct (map iid (interactions (spikeWorld [21, 22] us)))"
  "distinct (map iid (interactions (spikeWorld [21] us)))"
  by (simp_all add: spikeWorld_def negComment_def otherOrg_def otherPost_def
        praise_def stale_def arriving_def blank_def)

lemma arriving_fields: "itype arriving = ''comment''" "postId arriving = Some ''p1''"
  "organization arriving = 7" "100000000 - 86400000 \<le> createdAt arriving"
  "urgency arriving = None" "priority arriving = None"
  by (simp_all add: arriving_def blank_def)

lemma spike_others:
  "length (filter (\<lambda>d. iid d \<noteq> 20 \<and> organization d = 7 \<and> postId d = Some ''p1''
      \<and> sentiment d = Some ''negative'' \<and> 100000000 - 86400000 \<le> createdAt d)
      (interactions (spikeWorld [21, 22, 23] us))) = 3"
  "length (filter (\<lambda>d. iid d \<noteq> 20 \<and> organization d = 7 \<and> postId d = Some ''p1''
      \<and> sentiment d = Some ''negative'' \<and> 100000000 - 86400000 \<le> createdAt d)
      (interactions (spikeWorld [21, 22] us))) = 2"
  "length (filter (\<lambda>d. iid d \<noteq> 20 \<and> organization d = 7 \<and> postId d = Some ''p1''
      \<and> sentiment d = Some ''negative'' \<and> 100000000 - 86400000 \<le> createdAt d)
      (interactions (spikeWorld [21] us))) = 1"
  by (simp_all add: spikeWorld_def negComment_def otherOrg_def otherPost_def
        praise_def stale_def arriving_def blank_def)

lemma staff_agents:
  "filter (\<lambda>u. uorg u = 7 \<and> role u = ''agent'' \<and> isActive u) staff = [agentA]"
  "filter (\<lambda>u. uorg u = 7 \<and> role u = ''agent'' \<and> isActive u) unmanaged = [agentA]"
  by (simp_all add: staff_def unmanaged_def formerManager_def foreignManager_def agentA_def
        admin_def idleManager_def)

lemma staff_manager:
  "find (\<lambda>u. uorg u = 7 \<and> (role u = ''manager'' \<or> role u = ''admin'') \<and> isActive u) staff
     = Some admin"
  "find (\<lambda>u. uorg u = 7 \<and> (role u = ''manager'' \<or> role u = ''admin'') \<and> isActive u) unmanaged
     = None"
  by (simp_all add: staff_def unmanaged_def formerManager_def foreignManager_def agentA_def
        admin_def idleManager_def)

lemma staff_agent_uid:
  "a \<in> set staff \<or> a \<in> set unmanaged \<Longrightarrow> uorg a = 7 \<Longrightarrow> role a = ''agent'' \<Longrightarrow> isActive a
   \<Longrightarrow> uid a = 1"
  by (auto simp: staff_def unmanaged_def formerManager_def foreignManager_def agentA_def
        admin_def idleManager_def)

lemma spikeWorld_fields: "users (spikeWorld ks us) = us" "outbox (spikeWorld ks us) = []"
  by (simp_all add: spikeWorld_def)

lemma syncVideos_returns:
  "None \<notin> set vs \<Longrightarrow> \<exists>total w'. syncVideos now a conn vs n w = (Inr total, w')"
proof (induction vs arbitrary: n w)
  case Nil
  then show ?case by simp
next
  case (Cons v vs)
  then obtain videoId where v: "v = Some videoId" by (cases v) auto
  have rest: "None \<notin> set vs" using Cons.prems by auto
  obtain r w1 where f: "fetchVideoComments now conn (threadsOf a videoId) w = (r, w1)"
    by (cases "fetchVideoComments now conn (threadsOf a videoId) w")
  show ?case
  proof (cases r)
    case (Inl e)
    then show ?thesis using Cons.IH [OF rest] v f by simp
  next
    case (Inr p)
    then show ?thesis using Cons.IH [OF rest] v f by (cases p) simp
  qed
qed

lemma existsFor_iff:
  "existsFor pid org w = (\<exists>d\<in>set (interactions w). platformId d = pid \<and> organization d = org)"
  by (auto simp: existsFor_def find_None_iff)

lemma key3_free:
  "\<not> existsFor (platformId d) (organization d) w \<Longrightarrow> key3 d \<notin> set (map key3 (interactions w))"
  by (auto simp: existsFor_iff key3_def)

lemma bulkInsert_single:
  "\<not> existsFor (platformId d) (organization d) w \<Longrightarrow>
   bulkInsert now [d] w = (Inr (1, [d]), insertOne now d w)"
  using key3_free [of d w] by (simp add: bulkInsert_def)

lemma bulkInsert_none: "bulkInsert now [] w = (Inr (0, []), w)"
  by (simp add: bulkInsert_def)

lemma existsFor_insertOne:
  "existsFor (platformId d) (organization d) (insertOne now d w)"
  by (simp add: existsFor_iff insertOne_def)

lemma reviewDraft_key:
  "platformId (reviewDraft conn r) = reviewId r" "organization (reviewDraft conn r) = corg conn"
  by (simp_all add: reviewDraft_def)

lemma ratingSentiment_cases:
  "4 \<le> n \<Longrightarrow> ratingSentiment (Some n) = Some ''positive''"
  "n \<le> 2 \<Longrightarrow> n \<noteq> 0 \<Longrightarrow> ratingSentiment (Some n) = Some ''negative''"
  "ratingSentiment (Some 3) = Some ''neutral''"
  "ratingSentiment (Some 0) = None"
  by (simp_all add: ratingSentiment_def truthy_def)

lemma fetchReviews_first:
  assumes "\<not> existsFor (reviewId r) (corg conn) w"
  shows "fetchReviews now conn (Some [r]) w
           = (Inr (1, [reviewDraft conn r]), insertOne now (reviewDraft conn r) w)"
  using assms bulkInsert_single [of "reviewDraft conn r" w now]
  by (simp add: fetchReviews_def reviewDraft_key)

lemma fetchReviews_again:
  "fetchReviews later conn (Some [r]) (insertOne now (reviewDraft conn r) w)
     = (Inr (0, []), insertOne now (reviewDraft conn r) w)"
  using existsFor_insertOne [of "reviewDraft conn r" now w]
  by (simp add: fetchReviews_def reviewDraft_key bulkInsert_none)

lemma collectThreads_append:
  "collectThreads conn w (xs @ ys)
     = (fst (collectThreads conn w xs) @ fst (collectThreads conn w ys),
        snd (collectThreads conn w xs) @ snd (collectThreads conn w ys))"
  by (induction xs) (simp_all add: case_prod_beta)

lemma processThread_malformed:
  "threadThrows conn w bad \<Longrightarrow>
   processThread conn w bad = ([], [Err ''Error processing comment''])"
  by (auto simp: processThread_def threadThrows_def split: option.splits)

lemma processReplies_append:
  "processReplies conn c w (xs @ ys)
     = (fst (processReplies conn c w xs) @ fst (processReplies conn c w ys),
        snd (processReplies conn c w xs) @ snd (processReplies conn c w ys))"
  by (induction xs) (simp_all add: case_prod_beta split: option.splits)

lemma processReplies_skip:
  "replyThrows conn w bad \<Longrightarrow>
   processReplies conn c w (xs @ bad # ys)
     = (fst (processReplies conn c w (xs @ ys)),
        snd (processReplies conn c w xs) @ Err ''Error processing reply''
          # snd (processReplies conn c w ys))"
  by (simp add: processReplies_append [of conn c w xs "bad # ys"]
        processReplies_append [of conn c w xs ys] replyThrows_def case_prod_beta)

lemma collectThreads_skip:
  "threadThrows conn w bad \<Longrightarrow>
   collectThreads conn w (xs @ bad # ys)
     = (fst (collectThreads conn w (xs @ ys)),
        snd (collectThreads conn w xs) @ Err ''Error processing comment''
          # snd (collectThreads conn w ys))"
  by (simp add: collectThreads_append [of conn w xs "bad # ys"] collectThreads_append [of conn w xs ys]
        processThread_malformed case_prod_beta)

lemma fresh_id_console [simp]: "fresh_id (w\<lparr>console := c\<rparr>) = fresh_id w"
  by (simp add: fresh_id_def)

lemma insertOne_console: "insertOne now d (w\<lparr>console := c\<rparr>) = (insertOne now d w)\<lparr>console := c\<rparr>"
  by (simp add: insertOne_def)

lemma insertMany_console:
  "insertMany now ds (w\<lparr>console := c\<rparr>)
     = (fst (insertMany now ds w), (snd (insertMany now ds w))\<lparr>console := c\<rparr>)"
  by (induction ds arbitrary: w) (simp_all add: insertOne_console)

lemma bulkInsert_console:
  "fst (bulkInsert now ds (w\<lparr>console := c\<rparr>)) = fst (bulkInsert now ds w)"
  "interactions (snd (bulkInsert now ds (w\<lparr>console := c\<rparr>))) = interactions (snd (bulkInsert now ds w))"
  by (simp_all add: bulkInsert_def insertMany_console case_prod_beta say_def)

lemma processThread_plainNew:
  "plainNew conn w t \<Longrightarrow>
   map platformId (fst (processThread conn w t)) = [t_id t] \<and> snd (processThread conn w t) = []"
  by (auto simp: plainNew_def processThread_def commentDraft_def split: option.splits)

lemma collectThreads_plainNew:
  "\<forall>t\<in>set ts. plainNew conn w t \<Longrightarrow>
   map platformId (fst (collectThreads conn w ts)) = map t_id ts \<and> snd (collectThreads conn w ts) = []"
  by (induction ts) (simp_all add: case_prod_beta processThread_plainNew)

section \<open>Auto-reply eligibility\<close>

text \<open>
  C1. \<open>canAutoReply\<close> returns false exactly when the sentiment is negative, or the
  sentiment confidence is below 0.7, or the intent is complaint, or the urgency is high
  or urgent. In particular: with confidence exactly 0.70 the interaction is eligible as
  soon as the three other conditions pass; with confidence 0.69 it is ineligible; with
  sentiment negative it is ineligible whatever the confidence; with intent complaint it
  is ineligible even when the sentiment is positive.
\<close>

theorem canAutoReply_rule:
  "(canAutoReply i = False) =
     (sentiment i = Some ''negative''
      \<or> (\<exists>c. sentimentConfidence i = Some c \<and> c < 7 / 10)
      \<or> intent i = Some ''complaint''
      \<or> urgency i = Some ''high'' \<or> urgency i = Some ''urgent'')
   \<and> canAutoReply (i\<lparr>sentimentConfidence := Some (70 / 100)\<rparr>) =
     (sentiment i \<noteq> Some ''negative'' \<and> intent i \<noteq> Some ''complaint''
      \<and> urgency i \<noteq> Some ''high'' \<and> urgency i \<noteq> Some ''urgent'')
   \<and> canAutoReply (i\<lparr>sentimentConfidence := Some (69 / 100)\<rparr>) = False
   \<and> canAutoReply (i\<lparr>sentiment := Some ''negative'', sentimentConfidence := c\<rparr>) = False
   \<and> canAutoReply (i\<lparr>sentiment := Some ''positive'', intent := Some ''complaint''\<rparr>) = False"
  by (auto simp: canAutoReply_def js_lt_def split: option.splits)

theorem canAutoReply_rule_witness:
  "canAutoReply (blank\<lparr>sentiment := Some ''positive'',
       sentimentConfidence := Some (70 / 100), intent := Some ''inquiry''\<rparr>) = True
   \<and> canAutoReply (blank\<lparr>sentiment := Some ''positive'',
       sentimentConfidence := Some (69 / 100), intent := Some ''inquiry''\<rparr>) = False"
  using canAutoReply_rule [of "blank\<lparr>sentiment := Some ''positive'', intent := Some ''inquiry''\<rparr>"]
  by (simp add: blank_def)

text \<open>
  C10. When the interaction has no \<open>sentimentConfidence\<close> at all, the confidence check
  does not make it ineligible: the verdict is decided by the three other conditions
  alone, and an interaction with no sentiment, no intent, no urgency and no confidence
  is judged eligible.
\<close>

theorem canAutoReply_unenriched:
  "canAutoReply (i\<lparr>sentimentConfidence := None\<rparr>) =
     (sentiment i \<noteq> Some ''negative'' \<and> intent i \<noteq> Some ''complaint''
      \<and> urgency i \<noteq> Some ''high'' \<and> urgency i \<noteq> Some ''urgent'')
   \<and> canAutoReply (i\<lparr>sentiment := None, sentimentConfidence := None, intent := None,
        urgency := None\<rparr>) = True
   \<and> canAutoReply blank = True"
  by (auto simp: canAutoReply_def js_lt_def blank_def)

section \<open>Enrichment under stage failures\<close>

text \<open>
  C3, in the form that holds of the code. For every stored interaction and whatever the
  provider does at each of the four stages, \<open>processAI\<close> completes: every stage's result
  is written whether or not the other stages failed, a failing sentiment, intent or
  topics stage leaves its safe default (neutral sentiment with score 0, intent other,
  empty topics), the eligibility flag is set and the routing step is reached. A failing
  response-draft stage writes nothing: the suggestion keeps the value it had before the
  run, which is none for an interaction that has not been drafted before, and the
  interaction is handed to agent assignment with sentiment, intent and topics in place.
\<close>

theorem processAI_stage_failures:
  assumes "findById k w = Some doc"
  shows "\<exists>w' d. processAI now ai k w = Inr w' \<and> findById k w' = Some d
     \<and> sentiment d = Some (sr_sentiment (analyzeSentiment (sentiment_reply ai)))
     \<and> sentimentScore d = Some (sr_score (analyzeSentiment (sentiment_reply ai)))
     \<and> intent d = Some (detectIntent (intent_reply ai))
     \<and> topics d = extractTopics (topics_reply ai)
     \<and> aiSuggestion d = (case response_reply ai of None \<Rightarrow> aiSuggestion doc
                                                  | Some text \<Rightarrow> Some (trim text))
     \<and> autoReplyEligible d = Some (canAutoReply (enrich ai doc))
     \<and> (sentiment_reply ai = None \<longrightarrow>
           sentiment d = Some ''neutral'' \<and> sentimentScore d = Some 0)
     \<and> (intent_reply ai = None \<longrightarrow> intent d = Some ''other'')
     \<and> (topics_reply ai = None \<longrightarrow> topics d = [])
     \<and> (response_reply ai = None \<longrightarrow>
           aiSuggestion d = aiSuggestion doc
           \<and> Info ''Assigning to agent...'' \<in> set (console w'))
     \<and> (Info ''Interaction is eligible for auto-reply'' \<in> set (console w')
          \<or> Info ''Assigning to agent...'' \<in> set (console w'))
     \<and> Info ''AI processing completed'' \<in> set (console w')"
proof -
  let ?d = "finalDoc now ai doc w"
  let ?w = "say (Info ''AI processing completed'') (save ?d (preSave now ai doc w))"
  have run: "processAI now ai k w = Inr ?w" using assms by (rule processAI_run)
  have stored: "findById k ?w = Some ?d" using assms by (rule processAI_stored)
  have sub: "set (console (snd (route ai (enrich ai doc) w))) \<subseteq> set (console ?w)"
    using preSave_console [of ai doc w now] by (auto simp: console_say)
  have routed: "Info ''Interaction is eligible for auto-reply'' \<in> set (console ?w)
          \<or> Info ''Assigning to agent...'' \<in> set (console ?w)"
    using route_console [of ai "enrich ai doc" w] sub by blast
  have nodraft: "response_reply ai = None \<longrightarrow> Info ''Assigning to agent...'' \<in> set (console ?w)"
    using route_console_no_draft [of ai "enrich ai doc" w] sub
    by (auto simp: generateResponse_def)
  have fin: "Info ''AI processing completed'' \<in> set (console ?w)"
    by (simp add: console_say)
  have sug: "aiSuggestion ?d = (case response_reply ai of None \<Rightarrow> aiSuggestion doc
                                                  | Some text \<Rightarrow> Some (trim text))"
    by (simp add: finalDoc_fields generateResponse_def split: option.splits)
  have dflt: "sentiment_reply ai = None \<longrightarrow>
           sentiment ?d = Some ''neutral'' \<and> sentimentScore ?d = Some 0"
    "intent_reply ai = None \<longrightarrow> intent ?d = Some ''other''"
    "topics_reply ai = None \<longrightarrow> topics ?d = []"
    "response_reply ai = None \<longrightarrow> aiSuggestion ?d = aiSuggestion doc"
    by (simp_all add: finalDoc_fields analyzeSentiment_def detectIntent_def extractTopics_def
          generateResponse_def)
  show ?thesis
    apply (rule exI[of _ ?w], rule exI[of _ ?d])
    using run stored routed nodraft fin sug dflt
    by (simp add: finalDoc_fields(1,2,3,4,6))
qed

theorem processAI_stage_failures_witness:
  "findById 5 oneDocWorld = Some freshComment
   \<and> (\<exists>w' d. processAI 0 allFailed 5 oneDocWorld = Inr w' \<and> findById 5 w' = Some d
        \<and> sentiment d = Some ''neutral'' \<and> sentimentScore d = Some 0
        \<and> intent d = Some ''other'' \<and> topics d = [] \<and> aiSuggestion d = None
        \<and> Info ''Assigning to agent...'' \<in> set (console w'))"
proof -
  have h: "findById 5 oneDocWorld = Some freshComment"
    by (simp add: findById_def oneDocWorld_def freshComment_def)
  have a: "sentiment_reply allFailed = None" "intent_reply allFailed = None"
    "topics_reply allFailed = None" "response_reply allFailed = None"
    by (simp_all add: allFailed_def)
  have n: "aiSuggestion freshComment = None" by (simp add: freshComment_def blank_def)
  from processAI_stage_failures [OF h, of 0 allFailed] obtain w' d where
    "processAI 0 allFailed 5 oneDocWorld = Inr w'" "findById 5 w' = Some d"
    "sentiment d = Some ''neutral'' \<and> sentimentScore d = Some 0"
    "intent d = Some ''other''" "topics d = []" "aiSuggestion d = aiSuggestion freshComment"
    "Info ''Assigning to agent...'' \<in> set (console w')"
    unfolding a by blast
  then show ?thesis using h n by auto
qed

text \<open>
  An interaction that carries a draft from an earlier run and is processed again while
  every stage fails still carries that draft afterwards.
\<close>

theorem processAI_keeps_stale_draft:
  "findById 5 draftedWorld = Some draftedComment
   \<and> aiSuggestion draftedComment = Some ''OLD DRAFT''
   \<and> response_reply allFailed = None
   \<and> (\<exists>w' d. processAI 0 allFailed 5 draftedWorld = Inr w' \<and> findById 5 w' = Some d
        \<and> aiSuggestion d = Some ''OLD DRAFT'')"
proof -
  have h: "findById 5 draftedWorld = Some draftedComment"
    by (simp add: findById_def draftedWorld_def draftedComment_def freshComment_def)
  have a: "response_reply allFailed = None" by (simp add: allFailed_def)
  have n: "aiSuggestion draftedComment = Some ''OLD DRAFT''" by (simp add: draftedComment_def)
  have s: "aiSuggestion (finalDoc 0 allFailed draftedComment draftedWorld) = Some ''OLD DRAFT''"
    by (simp add: finalDoc_fields(5) generateResponse_def a n)
  show ?thesis
    using h a n s processAI_run [OF h, of 0 allFailed] processAI_stored [OF h, of 0 allFailed]
    by blast
qed

section \<open>Least-loaded assignment\<close>

text \<open>
  C5. \<open>assignToAgent\<close>, which the routing step calls for every interaction that is not
  auto-replied, looks at the users that belong to the interaction's organization, have
  the role agent and are active, in the order of the query. The load of a user is the
  number of stored interactions assigned to that user whose status is assigned or
  unread. The interaction is assigned to the first of those agents whose load is
  minimal: every agent before it has a strictly larger load, every agent after it a load
  at least as large. The assignment is stored on the interaction and one notification
  goes to the chosen agent. With agents A (2 open), B (0 open), C (1 open) the
  interaction goes to B. When the organization has no active agent the interaction is
  returned unchanged, nothing is stored, and the condition is logged.
\<close>

theorem assignToAgent_least_loaded:
  "(let agents = filter (\<lambda>u. uorg u = organization doc \<and> role u = ''agent'' \<and> isActive u)
                   (users w);
        load = (\<lambda>u. length (filter (\<lambda>d. assignedTo d = Some (uid u)
                   \<and> (status d = Some ''assigned'' \<or> status d = Some ''unread''))
                   (interactions w)))
    in (agents = [] \<longrightarrow>
          assignToAgent doc w
            = (doc, w\<lparr>console := console w @ [Info ''No agents available for assignment'']\<rparr>))
     \<and> (agents \<noteq> [] \<longrightarrow>
          (\<exists>pre a post. agents = pre @ a # post
             \<and> a \<in> set (users w) \<and> uorg a = organization doc \<and> role a = ''agent'' \<and> isActive a
             \<and> (\<forall>b\<in>set pre. load a < load b)
             \<and> (\<forall>b\<in>set post. load a \<le> load b)
             \<and> fst (assignToAgent doc w)
                 = doc\<lparr>assignedTo := Some (uid a), status := Some ''assigned''\<rparr>
             \<and> interactions (snd (assignToAgent doc w))
                 = map (\<lambda>d. if iid d = iid doc
                             then doc\<lparr>assignedTo := Some (uid a), status := Some ''assigned''\<rparr>
                             else d) (interactions w)
             \<and> outbox (snd (assignToAgent doc w))
                 = outbox w @ [AssignmentNotification (uid a) (iid doc)])))
   \<and> (\<not> (canAutoReply doc \<and> generateResponse (response_reply ai) \<noteq> None) \<longrightarrow>
        route ai doc w
          = assignToAgent (doc\<lparr>autoReplyEligible := Some (canAutoReply doc)\<rparr>)
              (w\<lparr>console := console w @ [Info ''Assigning to agent...'']\<rparr>))
   \<and> assignedTo (fst (assignToAgent incoming abcWorld)) = Some (uid agentB)"
proof (intro conjI)
  let ?agents = "filter (\<lambda>u. uorg u = organization doc \<and> role u = ''agent'' \<and> isActive u)
                   (users w)"
  let ?load = "\<lambda>u. length (filter (\<lambda>d. assignedTo d = Some (uid u)
                   \<and> (status d = Some ''assigned'' \<or> status d = Some ''unread''))
                   (interactions w))"
  have ag: "activeAgents doc w = ?agents" by (simp add: activeAgents_def)
  have ld: "\<And>u. workload w u = ?load u" by (simp add: workload_def countDocuments_def)
  have none: "?agents = [] \<longrightarrow>
          assignToAgent doc w
            = (doc, w\<lparr>console := console w @ [Info ''No agents available for assignment'']\<rparr>)"
    by (simp add: assignToAgent_def ag say_def)
  have some: "?agents \<noteq> [] \<longrightarrow>
          (\<exists>pre a post. ?agents = pre @ a # post
             \<and> a \<in> set (users w) \<and> uorg a = organization doc \<and> role a = ''agent'' \<and> isActive a
             \<and> (\<forall>b\<in>set pre. ?load a < ?load b)
             \<and> (\<forall>b\<in>set post. ?load a \<le> ?load b)
             \<and> fst (assignToAgent doc w)
                 = doc\<lparr>assignedTo := Some (uid a), status := Some ''assigned''\<rparr>
             \<and> interactions (snd (assignToAgent doc w))
                 = map (\<lambda>d. if iid d = iid doc
                             then doc\<lparr>assignedTo := Some (uid a), status := Some ''assigned''\<rparr>
                             else d) (interactions w)
             \<and> outbox (snd (assignToAgent doc w))
                 = outbox w @ [AssignmentNotification (uid a) (iid doc)])"
  proof
    assume "?agents \<noteq> []"
    then have "activeAgents doc w \<noteq> []" using ag by simp
    from assignToAgent_choice [OF this] obtain pre a post where
      c: "?agents = pre @ a # post"
         "\<forall>b\<in>set pre. ?load a < ?load b"
         "\<forall>b\<in>set post. ?load a \<le> ?load b"
         "assignToAgent doc w =
            (doc\<lparr>assignedTo := Some (uid a), status := Some ''assigned''\<rparr>,
             say (Info ''Assigned interaction to agent'')
               (sendMail (AssignmentNotification (uid a) (iid doc))
                  (save (doc\<lparr>assignedTo := Some (uid a), status := Some ''assigned''\<rparr>) w)))"
      unfolding ag ld by blast
    have "a \<in> set ?agents" using c(1) by simp
    then have a: "a \<in> set (users w)" "uorg a = organization doc" "role a = ''agent''"
      "isActive a" by simp_all
    have st: "interactions (snd (assignToAgent doc w))
                 = map (\<lambda>d. if iid d = iid doc
                             then doc\<lparr>assignedTo := Some (uid a), status := Some ''assigned''\<rparr>
                             else d) (interactions w)"
      by (simp add: c(4) say_def sendMail_def save_def)
    have ob: "outbox (snd (assignToAgent doc w))
                 = outbox w @ [AssignmentNotification (uid a) (iid doc)]"
      by (simp add: c(4) say_def sendMail_def save_def)
    have fs: "fst (assignToAgent doc w)
                 = doc\<lparr>assignedTo := Some (uid a), status := Some ''assigned''\<rparr>"
      by (simp add: c(4))
    show "\<exists>pre a post. ?agents = pre @ a # post
             \<and> a \<in> set (users w) \<and> uorg a = organization doc \<and> role a = ''agent'' \<and> isActive a
             \<and> (\<forall>b\<in>set pre. ?load a < ?load b)
             \<and> (\<forall>b\<in>set post. ?load a \<le> ?load b)
             \<and> fst (assignToAgent doc w)
                 = doc\<lparr>assignedTo := Some (uid a), status := Some ''assigned''\<rparr>
             \<and> interactions (snd (assignToAgent doc w))
                 = map (\<lambda>d. if iid d = iid doc
                             then doc\<lparr>assignedTo := Some (uid a), status := Some ''assigned''\<rparr>
                             else d) (interactions w)
             \<and> outbox (snd (assignToAgent doc w))
                 = outbox w @ [AssignmentNotification (uid a) (iid doc)]"
      using c(1,2,3) a st ob fs by blast
  qed
  show "let agents = ?agents; load = ?load
    in (agents = [] \<longrightarrow>
          assignToAgent doc w
            = (doc, w\<lparr>console := console w @ [Info ''No agents available for assignment'']\<rparr>))
     \<and> (agents \<noteq> [] \<longrightarrow>
          (\<exists>pre a post. agents = pre @ a # post
             \<and> a \<in> set (users w) \<and> uorg a = organization doc \<and> role a = ''agent'' \<and> isActive a
             \<and> (\<forall>b\<in>set pre. load a < load b)
             \<and> (\<forall>b\<in>set post. load a \<le> load b)
             \<and> fst (assignToAgent doc w)
                 = doc\<lparr>assignedTo := Some (uid a), status := Some ''assigned''\<rparr>
             \<and> interactions (snd (assignToAgent doc w))
                 = map (\<lambda>d. if iid d = iid doc
                             then doc\<lparr>assignedTo := Some (uid a), status := Some ''assigned''\<rparr>
                             else d) (interactions w)
             \<and> outbox (snd (assignToAgent doc w))
                 = outbox w @ [AssignmentNotification (uid a) (iid doc)]))"
    unfolding Let_def using none some by blast
  show "\<not> (canAutoReply doc \<and> generateResponse (response_reply ai) \<noteq> None) \<longrightarrow>
        route ai doc w
          = assignToAgent (doc\<lparr>autoReplyEligible := Some (canAutoReply doc)\<rparr>)
              (w\<lparr>console := console w @ [Info ''Assigning to agent...'']\<rparr>)"
    by (auto simp: route_def Let_def say_def)
  show "assignedTo (fst (assignToAgent incoming abcWorld)) = Some (uid agentB)"
    by (rule abc_assigned)
qed

theorem assignToAgent_least_loaded_witness:
  "filter (\<lambda>u. uorg u = organization incoming \<and> role u = ''agent'' \<and> isActive u) (users abcWorld)
     = [agentA, agentB, agentC]
   \<and> map (\<lambda>u. length (filter (\<lambda>d. assignedTo d = Some (uid u)
             \<and> (status d = Some ''assigned'' \<or> status d = Some ''unread''))
             (interactions abcWorld))) [agentA, agentB, agentC] = [2, 0, 1]
   \<and> assignedTo (fst (assignToAgent incoming abcWorld)) = Some 2
   \<and> filter (\<lambda>u. uorg u = organization incoming \<and> role u = ''agent'' \<and> isActive u)
        [idleInactive, idleForeign, idleManager] = []
   \<and> assignToAgent incoming (abcWorld\<lparr>users := [idleInactive, idleForeign, idleManager]\<rparr>)
       = (incoming, abcWorld\<lparr>users := [idleInactive, idleForeign, idleManager],
                     console := [Info ''No agents available for assignment'']\<rparr>)"
proof -
  have ag: "filter (\<lambda>u. uorg u = organization incoming \<and> role u = ''agent'' \<and> isActive u)
      (users abcWorld) = [agentA, agentB, agentC]"
    using abc_agents by (simp add: activeAgents_def)
  have ld: "map (\<lambda>u. length (filter (\<lambda>d. assignedTo d = Some (uid u)
             \<and> (status d = Some ''assigned'' \<or> status d = Some ''unread''))
             (interactions abcWorld))) [agentA, agentB, agentC] = [2, 0, 1]"
    using abc_load by (simp add: workload_def countDocuments_def)
  have none: "filter (\<lambda>u. uorg u = organization incoming \<and> role u = ''agent'' \<and> isActive u)
        [idleInactive, idleForeign, idleManager] = []"
    by (simp add: idleInactive_def idleForeign_def idleManager_def incoming_def blank_def)
  have c: "console abcWorld = []" by (simp add: abcWorld_def)
  have "assignToAgent incoming (abcWorld\<lparr>users := [idleInactive, idleForeign, idleManager]\<rparr>)
       = (incoming, abcWorld\<lparr>users := [idleInactive, idleForeign, idleManager],
                     console := [Info ''No agents available for assignment'']\<rparr>)"
    using assignToAgent_least_loaded
      [of incoming "abcWorld\<lparr>users := [idleInactive, idleForeign, idleManager]\<rparr>"] none c
    by (simp add: Let_def)
  moreover from assignToAgent_least_loaded [of incoming abcWorld]
  have "assignedTo (fst (assignToAgent incoming abcWorld)) = Some (uid agentB)" by blast
  moreover have "uid agentB = 2" by (simp add: agentB_def)
  ultimately show ?thesis using ag ld none by simp
qed

section \<open>Negative-spike detection\<close>

text \<open>
  C4, in the form that holds of the code. Take a comment on a post whose sentiment stage
  answers negative, processed by \<open>processAI\<close> within 24 hours of its creation in an
  organization that has an active agent, so that routing assigns it. Let the count be the
  number of negative comments of the organization on that post created within the
  trailing 24 hours, the current one included. The run completes and rewrites the
  current interaction only. When the count is 2 or fewer, no escalation happens:
  urgency and priority stay as they were and the only mail is the assignment
  notification. Whenever the count is 3 or more, at the third negative comment and at
  every later one inside the window, urgency and priority of the current interaction
  are set to urgent and one notification carrying the post and the count goes to the
  first active manager or admin of the organization; when the organization has none, no
  notification is sent.
\<close>

theorem negative_spike_escalation:
  assumes "findById k w = Some doc"
    and "distinct (map iid (interactions w))"
    and "itype doc = ''comment''"
    and "postId doc = Some p" and "p \<noteq> []"
    and "sr_sentiment (analyzeSentiment (sentiment_reply ai)) = ''negative''"
    and "now - 86400000 \<le> createdAt doc"
    and "filter (\<lambda>u. uorg u = organization doc \<and> role u = ''agent'' \<and> isActive u)
           (users w) \<noteq> []"
  shows "\<exists>w' d' a. processAI now ai k w = Inr w'
     \<and> a \<in> set (users w) \<and> uorg a = organization doc \<and> role a = ''agent'' \<and> isActive a
     \<and> interactions w' = map (\<lambda>d. if iid d = k then d' else d) (interactions w)
     \<and> assignedTo d' = Some (uid a) \<and> sentiment d' = Some ''negative''
     \<and> (let n = Suc (length (filter (\<lambda>d. iid d \<noteq> k \<and> organization d = organization doc
                  \<and> postId d = Some p \<and> sentiment d = Some ''negative''
                  \<and> now - 86400000 \<le> createdAt d) (interactions w)))
        in (n \<le> 2 \<longrightarrow> urgency d' = urgency doc \<and> priority d' = priority doc
              \<and> outbox w' = outbox w @ [AssignmentNotification (uid a) k])
         \<and> (3 \<le> n \<longrightarrow> urgency d' = Some ''urgent'' \<and> priority d' = Some ''urgent''
              \<and> outbox w' = outbox w @ AssignmentNotification (uid a) k #
                  (case find (\<lambda>u. uorg u = organization doc
                            \<and> (role u = ''manager'' \<or> role u = ''admin'') \<and> isActive u) (users w)
                   of None \<Rightarrow> [] | Some m \<Rightarrow> [NegativeSpikeAlert (uid m) p n])))"
  using assms by (rule processAI_negative_comment)

theorem negative_spike_escalation_witness:
  "findById 20 (spikeWorld [21] staff) = Some arriving
   \<and> findById 20 (spikeWorld [21, 22] staff) = Some arriving
   \<and> sr_sentiment (analyzeSentiment (sentiment_reply negativeAI)) = ''negative''
   \<and> (\<exists>w' d'. processAI 100000000 negativeAI 20 (spikeWorld [21] staff) = Inr w'
        \<and> interactions w' = map (\<lambda>d. if iid d = 20 then d' else d)
                             (interactions (spikeWorld [21] staff))
        \<and> assignedTo d' = Some 1 \<and> urgency d' = None \<and> priority d' = None
        \<and> outbox w' = [AssignmentNotification 1 20])
   \<and> (\<exists>w' d'. processAI 100000000 negativeAI 20 (spikeWorld [21, 22] staff) = Inr w'
        \<and> interactions w' = map (\<lambda>d. if iid d = 20 then d' else d)
                             (interactions (spikeWorld [21, 22] staff))
        \<and> assignedTo d' = Some 1 \<and> urgency d' = Some ''urgent'' \<and> priority d' = Some ''urgent''
        \<and> outbox w' = [AssignmentNotification 1 20, NegativeSpikeAlert 9 ''p1'' 3])"
proof -
  have ne: "''p1'' \<noteq> []" by simp
  have ag: "filter (\<lambda>u. uorg u = organization arriving \<and> role u = ''agent'' \<and> isActive u)
           (users (spikeWorld ks staff)) \<noteq> []" for ks
    by (simp add: spikeWorld_fields arriving_fields staff_agents)
  have ad: "uid admin = 9" by (simp add: admin_def)
  from negative_spike_escalation [OF spike_found(3) spike_distinct(3) arriving_fields(1,2) ne
      negativeAI_negative arriving_fields(4) ag]
  obtain w' d' a where
    "processAI 100000000 negativeAI 20 (spikeWorld [21] staff) = Inr w'"
    "a \<in> set staff" "uorg a = 7" "role a = ''agent''" "isActive a"
    "interactions w' = map (\<lambda>d. if iid d = 20 then d' else d)
                             (interactions (spikeWorld [21] staff))"
    "assignedTo d' = Some (uid a)" "urgency d' = None" "priority d' = None"
    "outbox w' = [AssignmentNotification (uid a) 20]"
    unfolding Let_def arriving_fields spike_others spikeWorld_fields by auto
  then have two: "\<exists>w' d'. processAI 100000000 negativeAI 20 (spikeWorld [21] staff) = Inr w'
        \<and> interactions w' = map (\<lambda>d. if iid d = 20 then d' else d)
                             (interactions (spikeWorld [21] staff))
        \<and> assignedTo d' = Some 1 \<and> urgency d' = None \<and> priority d' = None
        \<and> outbox w' = [AssignmentNotification 1 20]"
    using staff_agent_uid [of a] by auto
  from negative_spike_escalation [OF spike_found(2) spike_distinct(2) arriving_fields(1,2) ne
      negativeAI_negative arriving_fields(4) ag]
  obtain w' d' a where
    "processAI 100000000 negativeAI 20 (spikeWorld [21, 22] staff) = Inr w'"
    "a \<in> set staff" "uorg a = 7" "role a = ''agent''" "isActive a"
    "interactions w' = map (\<lambda>d. if iid d = 20 then d' else d)
                             (interactions (spikeWorld [21, 22] staff))"
    "assignedTo d' = Some (uid a)" "urgency d' = Some ''urgent''" "priority d' = Some ''urgent''"
    "outbox w' = [AssignmentNotification (uid a) 20, NegativeSpikeAlert 9 ''p1'' 3]"
    unfolding Let_def arriving_fields spike_others spikeWorld_fields staff_manager
    by (auto simp: ad)
  then have three: "\<exists>w' d'. processAI 100000000 negativeAI 20 (spikeWorld [21, 22] staff) = Inr w'
        \<and> interactions w' = map (\<lambda>d. if iid d = 20 then d' else d)
                             (interactions (spikeWorld [21, 22] staff))
        \<and> assignedTo d' = Some 1 \<and> urgency d' = Some ''urgent'' \<and> priority d' = Some ''urgent''
        \<and> outbox w' = [AssignmentNotification 1 20, NegativeSpikeAlert 9 ''p1'' 3]"
    using staff_agent_uid [of a] by auto
  show ?thesis using spike_found(2,3) negativeAI_negative two three by blast
qed

text \<open>
  The fourth negative comment on the post within the window is marked urgent as well and
  triggers a notification of its own, with count 4. And in an organization without an
  active manager or admin the third negative comment is marked urgent while no
  notification is sent.
\<close>

theorem negative_spike_repeats:
  "(\<exists>w' d'. processAI 100000000 negativeAI 20 (spikeWorld [21, 22, 23] staff) = Inr w'
        \<and> interactions w' = map (\<lambda>d. if iid d = 20 then d' else d)
                             (interactions (spikeWorld [21, 22, 23] staff))
        \<and> urgency d' = Some ''urgent''
        \<and> outbox w' = [AssignmentNotification 1 20, NegativeSpikeAlert 9 ''p1'' 4])
   \<and> (\<exists>w' d'. processAI 100000000 negativeAI 20 (spikeWorld [21, 22] unmanaged) = Inr w'
        \<and> interactions w' = map (\<lambda>d. if iid d = 20 then d' else d)
                             (interactions (spikeWorld [21, 22] unmanaged))
        \<and> urgency d' = Some ''urgent''
        \<and> outbox w' = [AssignmentNotification 1 20])"
proof -
  have ne: "''p1'' \<noteq> []" by simp
  have ag: "filter (\<lambda>u. uorg u = organization arriving \<and> role u = ''agent'' \<and> isActive u)
           (users (spikeWorld ks staff)) \<noteq> []" for ks
    by (simp add: spikeWorld_fields arriving_fields staff_agents)
  have ag': "filter (\<lambda>u. uorg u = organization arriving \<and> role u = ''agent'' \<and> isActive u)
           (users (spikeWorld ks unmanaged)) \<noteq> []" for ks
    by (simp add: spikeWorld_fields arriving_fields staff_agents)
  have ad: "uid admin = 9" by (simp add: admin_def)
  from processAI_negative_comment [OF spike_found(1) spike_distinct(1) arriving_fields(1,2) ne
      negativeAI_negative arriving_fields(4) ag]
  obtain w' d' a where
    "processAI 100000000 negativeAI 20 (spikeWorld [21, 22, 23] staff) = Inr w'"
    "a \<in> set staff" "uorg a = 7" "role a = ''agent''" "isActive a"
    "interactions w' = map (\<lambda>d. if iid d = 20 then d' else d)
                             (interactions (spikeWorld [21, 22, 23] staff))"
    "urgency d' = Some ''urgent''"
    "outbox w' = [AssignmentNotification (uid a) 20, NegativeSpikeAlert 9 ''p1'' 4]"
    unfolding Let_def arriving_fields spike_others spikeWorld_fields staff_manager
    by (auto simp: ad)
  then have four: "\<exists>w' d'. processAI 100000000 negativeAI 20 (spikeWorld [21, 22, 23] staff) = Inr w'
        \<and> interactions w' = map (\<lambda>d. if iid d = 20 then d' else d)
                             (interactions (spikeWorld [21, 22, 23] staff))
        \<and> urgency d' = Some ''urgent''
        \<and> outbox w' = [AssignmentNotification 1 20, NegativeSpikeAlert 9 ''p1'' 4]"
    using staff_agent_uid [of a] by auto
  from processAI_negative_comment [OF spike_found(2) spike_distinct(2) arriving_fields(1,2) ne
      negativeAI_negative arriving_fields(4) ag']
  obtain w' d' a where
    "processAI 100000000 negativeAI 20 (spikeWorld [21, 22] unmanaged) = Inr w'"
    "a \<in> set unmanaged" "uorg a = 7" "role a = ''agent''" "isActive a"
    "interactions w' = map (\<lambda>d. if iid d = 20 then d' else d)
                             (interactions (spikeWorld [21, 22] unmanaged))"
    "urgency d' = Some ''urgent''"
    "outbox w' = [AssignmentNotification (uid a) 20]"
    unfolding Let_def arriving_fields spike_others spikeWorld_fields staff_manager
    by auto
  then have none: "\<exists>w' d'. processAI 100000000 negativeAI 20 (spikeWorld [21, 22] unmanaged) = Inr w'
        \<and> interactions w' = map (\<lambda>d. if iid d = 20 then d' else d)
                             (interactions (spikeWorld [21, 22] unmanaged))
        \<and> urgency d' = Some ''urgent''
        \<and> outbox w' = [AssignmentNotification 1 20]"
    using staff_agent_uid [of a] by auto
  show ?thesis using four none by blast
qed

text \<open>
  When the organization has no active agent, routing stores nothing before the count is
  taken, so the count does not see the sentiment of the current comment: the third
  negative comment on the post is counted as the second and is not escalated.
\<close>

lemma negative_spike_unassigned:
  "\<exists>w' d. processAI 100000000 negativeAI 20 (spikeWorld [21, 22] [admin]) = Inr w'
      \<and> findById 20 w' = Some d \<and> sentiment d = Some ''negative''
      \<and> urgency d = None \<and> outbox w' = []"
proof -
  let ?w = "spikeWorld [21, 22] [admin]"
  have h: "findById 20 ?w = Some arriving" by (rule spike_found)
  define d1 where "d1 = (enrich negativeAI arriving)\<lparr>autoReplyEligible := Some False\<rparr>"
  define w1 where "w1 = say (Info ''No agents available for assignment'')
                          (say (Info ''Assigning to agent...'') ?w)"
  have se: "sentiment (enrich negativeAI arriving) = Some ''negative''"
    by (simp add: enrich_fields negativeAI_negative)
  have r: "route negativeAI (enrich negativeAI arriving) ?w = (d1, w1)"
    by (simp add: route_def Let_def canAutoReply_def se assignToAgent_def activeAgents_def
          say_def spikeWorld_def admin_def d1_def w1_def)
  have d: "postId d1 = Some ''p1''" "itype d1 = ''comment''" "sentiment d1 = Some ''negative''"
    "urgency d1 = None"
    by (simp_all add: d1_def enrich_keeps arriving_fields se)
  have c: "countDocuments (negativeOnPost 100000000 d1 ''p1'') w1 = 2"
    by (simp add: countDocuments_def negativeOnPost_def day_ms_def d1_def w1_def enrich_keeps
          say_def spikeWorld_def negComment_def otherOrg_def otherPost_def praise_def stale_def
          arriving_def blank_def)
  have o: "outbox w1 = []" by (simp add: w1_def say_def spikeWorld_fields)
  have ne: "''p1'' \<noteq> []" by simp
  have s: "spikeStep 100000000 d1 w1 = (d1, say (Info ''Negative comment count for post'') w1)"
    by (simp add: spikeStep_def d checkNegativeSpike_cases [OF d(1) ne] c)
  have f: "finalDoc 100000000 negativeAI arriving ?w = d1"
    by (simp add: finalDoc_def r s)
  have p: "outbox (preSave 100000000 negativeAI arriving ?w) = []"
    by (simp add: preSave_def r s o say_def)
  show ?thesis
    using processAI_run [OF h, of 100000000 negativeAI]
      processAI_stored [OF h, of 100000000 negativeAI]
    by (simp add: f d p say_def save_def)
qed

section \<open>Webhook acknowledgement\<close>

text \<open>
  C6, in the form that holds of the code. Every webhook delivery that the rate limiter
  of the application lets through and whose body carries a Pub/Sub message is answered
  with status 200 by both endpoints, whatever happens inside: a message that cannot be
  decoded and a failing connection lookup are logged as errors, a missing connection is
  logged, and a failing fetch and a failing hand-off of the processing job are logged as
  errors, each still acknowledged with 200. A delivery whose body has no message is
  answered with 400, and a delivery of a client that is over the limit with 429.
\<close>

theorem webhook_acknowledged:
  "let quota = (case env of None \<Rightarrow> 100 | Some n \<Rightarrow> if n = 0 then 100 else n)
   in (quota < int (Suc hits) \<longrightarrow>
         postWebhooksGoogle env hits now a lookup job message w
           = (\<lparr>code = 429, success = None\<rparr>, w)
         \<and> postWebhooksYoutube env hits now a lookup job message w
           = (\<lparr>code = 429, success = None\<rparr>, w))
    \<and> (int (Suc hits) \<le> quota \<and> message = None \<longrightarrow>
         postWebhooksGoogle env hits now a lookup job message w
           = (\<lparr>code = 400, success = Some False\<rparr>, w)
         \<and> postWebhooksYoutube env hits now a lookup job message w
           = (\<lparr>code = 400, success = Some False\<rparr>, w))
    \<and> (int (Suc hits) \<le> quota \<and> message \<noteq> None \<longrightarrow>
         code (fst (postWebhooksGoogle env hits now a lookup job message w)) = 200
       \<and> code (fst (postWebhooksYoutube env hits now a lookup job message w)) = 200
       \<and> (message = Some None \<or> (\<exists>e. lookup = Inl e) \<longrightarrow>
             Err ''Google webhook error''
               \<in> set (console (snd (postWebhooksGoogle env hits now a lookup job message w)))
           \<and> Err ''YouTube webhook error''
               \<in> set (console (snd (postWebhooksYoutube env hits now a lookup job message w))))
       \<and> (\<forall>ev. message = Some (Some ev) \<and> lookup = Inr None \<longrightarrow>
             postWebhooksGoogle env hits now a lookup job message w
               = (\<lparr>code = 200, success = Some True\<rparr>, say (Info ''No active connection found'') w)
             \<and> postWebhooksYoutube env hits now a lookup job message w
               = (\<lparr>code = 200, success = Some True\<rparr>,
                  say (Info ''No active YouTube connection found'') w))
       \<and> (\<forall>ev conn e w'. message = Some (Some ev) \<and> lookup = Inr (Some conn)
             \<and> (eventType ev = ''NEW_REVIEW'' \<or> eventType ev = ''UPDATE_REVIEW'')
             \<and> fetchReviews now conn (reviewsOf a (resourceId ev)) w = (Inl e, w') \<longrightarrow>
             postWebhooksGoogle env hits now a lookup job message w
               = (\<lparr>code = 200, success = Some True\<rparr>,
                  say (Err ''Error processing Google webhook'') w'))
       \<and> (\<forall>ev conn e w'. message = Some (Some ev) \<and> lookup = Inr (Some conn)
             \<and> (eventType ev = ''NEW_COMMENT'' \<or> eventType ev = ''UPDATE_COMMENT'')
             \<and> fetchVideoComments now conn (threadsOf a (resourceId ev)) w = (Inl e, w') \<longrightarrow>
             postWebhooksYoutube env hits now a lookup job message w
               = (\<lparr>code = 200, success = Some True\<rparr>,
                  say (Err ''Error processing YouTube webhook'') w'))
       \<and> (\<forall>ev conn r e w'. message = Some (Some ev) \<and> lookup = Inr (Some conn)
             \<and> (eventType ev = ''NEW_REVIEW'' \<or> eventType ev = ''UPDATE_REVIEW'')
             \<and> fetchReviews now conn (reviewsOf a (resourceId ev)) w = (Inr r, w')
             \<and> job = Inl e \<longrightarrow>
             postWebhooksGoogle env hits now a lookup job message w
               = (\<lparr>code = 200, success = Some True\<rparr>,
                  say (Err ''Error processing Google webhook'') w'))
       \<and> (\<forall>ev conn r e w'. message = Some (Some ev) \<and> lookup = Inr (Some conn)
             \<and> (eventType ev = ''NEW_COMMENT'' \<or> eventType ev = ''UPDATE_COMMENT'')
             \<and> fetchVideoComments now conn (threadsOf a (resourceId ev)) w = (Inr r, w')
             \<and> job = Inl e \<longrightarrow>
             postWebhooksYoutube env hits now a lookup job message w
               = (\<lparr>code = 200, success = Some True\<rparr>,
                  say (Err ''Error processing YouTube webhook'') w')))"
proof -
  let ?quota = "case env of None \<Rightarrow> 100 | Some n \<Rightarrow> if n = 0 then 100 else n"
  have over: "?quota < int (Suc hits) \<longrightarrow>
         postWebhooksGoogle env hits now a lookup job message w
           = (\<lparr>code = 429, success = None\<rparr>, w)
         \<and> postWebhooksYoutube env hits now a lookup job message w
           = (\<lparr>code = 429, success = None\<rparr>, w)"
    by (simp add: postWebhooksGoogle_def postWebhooksYoutube_def limiter_def rateLimitMax_def
          split: option.splits)
  have none: "int (Suc hits) \<le> ?quota \<and> message = None \<longrightarrow>
         postWebhooksGoogle env hits now a lookup job message w
           = (\<lparr>code = 400, success = Some False\<rparr>, w)
         \<and> postWebhooksYoutube env hits now a lookup job message w
           = (\<lparr>code = 400, success = Some False\<rparr>, w)"
    by (simp add: postWebhooksGoogle_def postWebhooksYoutube_def limiter_def rateLimitMax_def
          handleGoogleWebhook_def handleYouTubeWebhook_def split: option.splits)
  have pass: "code (fst (postWebhooksGoogle env hits now a lookup job message w)) = 200
       \<and> code (fst (postWebhooksYoutube env hits now a lookup job message w)) = 200
       \<and> (message = Some None \<or> (\<exists>e. lookup = Inl e) \<longrightarrow>
             Err ''Google webhook error''
               \<in> set (console (snd (postWebhooksGoogle env hits now a lookup job message w)))
           \<and> Err ''YouTube webhook error''
               \<in> set (console (snd (postWebhooksYoutube env hits now a lookup job message w))))
       \<and> (\<forall>ev. message = Some (Some ev) \<and> lookup = Inr None \<longrightarrow>
             postWebhooksGoogle env hits now a lookup job message w
               = (\<lparr>code = 200, success = Some True\<rparr>, say (Info ''No active connection found'') w)
             \<and> postWebhooksYoutube env hits now a lookup job message w
               = (\<lparr>code = 200, success = Some True\<rparr>,
                  say (Info ''No active YouTube connection found'') w))
       \<and> (\<forall>ev conn e w'. message = Some (Some ev) \<and> lookup = Inr (Some conn)
             \<and> (eventType ev = ''NEW_REVIEW'' \<or> eventType ev = ''UPDATE_REVIEW'')
             \<and> fetchReviews now conn (reviewsOf a (resourceId ev)) w = (Inl e, w') \<longrightarrow>
             postWebhooksGoogle env hits now a lookup job message w
               = (\<lparr>code = 200, success = Some True\<rparr>,
                  say (Err ''Error processing Google webhook'') w'))
       \<and> (\<forall>ev conn e w'. message = Some (Some ev) \<and> lookup = Inr (Some conn)
             \<and> (eventType ev = ''NEW_COMMENT'' \<or> eventType ev = ''UPDATE_COMMENT'')
             \<and> fetchVideoComments now conn (threadsOf a (resourceId ev)) w = (Inl e, w') \<longrightarrow>
             postWebhooksYoutube env hits now a lookup job message w
               = (\<lparr>code = 200, success = Some True\<rparr>,
                  say (Err ''Error processing YouTube webhook'') w'))
       \<and> (\<forall>ev conn r e w'. message = Some (Some ev) \<and> lookup = Inr (Some conn)
             \<and> (eventType ev = ''NEW_REVIEW'' \<or> eventType ev = ''UPDATE_REVIEW'')
             \<and> fetchReviews now conn (reviewsOf a (resourceId ev)) w = (Inr r, w')
             \<and> job = Inl e \<longrightarrow>
             postWebhooksGoogle env hits now a lookup job message w
               = (\<lparr>code = 200, success = Some True\<rparr>,
                  say (Err ''Error processing Google webhook'') w'))
       \<and> (\<forall>ev conn r e w'. message = Some (Some ev) \<and> lookup = Inr (Some conn)
             \<and> (eventType ev = ''NEW_COMMENT'' \<or> eventType ev = ''UPDATE_COMMENT'')
             \<and> fetchVideoComments now conn (threadsOf a (resourceId ev)) w = (Inr r, w')
             \<and> job = Inl e \<longrightarrow>
             postWebhooksYoutube env hits now a lookup job message w
               = (\<lparr>code = 200, success = Some True\<rparr>,
                  say (Err ''Error processing YouTube webhook'') w'))"
    if q: "int (Suc hits) \<le> ?quota" and m: "message \<noteq> None"
  proof -
    have g: "postWebhooksGoogle env hits now a lookup job message w
               = handleGoogleWebhook now a lookup job message w"
      using q
      by (simp add: postWebhooksGoogle_def limiter_def rateLimitMax_def split: option.splits)
    have y: "postWebhooksYoutube env hits now a lookup job message w
               = handleYouTubeWebhook now a lookup job message w"
      using q
      by (simp add: postWebhooksYoutube_def limiter_def rateLimitMax_def split: option.splits)
    have c1: "code (fst (handleGoogleWebhook now a lookup job message w)) = 200"
      using m
      by (auto simp: handleGoogleWebhook_def split: option.splits sum.splits prod.splits)
    have c2: "code (fst (handleYouTubeWebhook now a lookup job message w)) = 200"
      using m
      by (auto simp: handleYouTubeWebhook_def split: option.splits sum.splits prod.splits)
    have c3: "message = Some None \<or> (\<exists>e. lookup = Inl e) \<longrightarrow>
               Err ''Google webhook error''
                 \<in> set (console (snd (handleGoogleWebhook now a lookup job message w)))
             \<and> Err ''YouTube webhook error''
                 \<in> set (console (snd (handleYouTubeWebhook now a lookup job message w)))"
      using m
      by (auto simp: handleGoogleWebhook_def handleYouTubeWebhook_def console_say
               split: option.splits)
    have c4: "\<forall>ev. message = Some (Some ev) \<and> lookup = Inr None \<longrightarrow>
               handleGoogleWebhook now a lookup job message w
                 = (\<lparr>code = 200, success = Some True\<rparr>, say (Info ''No active connection found'') w)
               \<and> handleYouTubeWebhook now a lookup job message w
                 = (\<lparr>code = 200, success = Some True\<rparr>,
                    say (Info ''No active YouTube connection found'') w)"
      by (auto simp: handleGoogleWebhook_def handleYouTubeWebhook_def)
    have c5: "\<forall>ev conn e w'. message = Some (Some ev) \<and> lookup = Inr (Some conn)
               \<and> (eventType ev = ''NEW_REVIEW'' \<or> eventType ev = ''UPDATE_REVIEW'')
               \<and> fetchReviews now conn (reviewsOf a (resourceId ev)) w = (Inl e, w') \<longrightarrow>
               handleGoogleWebhook now a lookup job message w
                 = (\<lparr>code = 200, success = Some True\<rparr>,
                    say (Err ''Error processing Google webhook'') w')"
      by (auto simp: handleGoogleWebhook_def)
    have c6: "\<forall>ev conn e w'. message = Some (Some ev) \<and> lookup = Inr (Some conn)
               \<and> (eventType ev = ''NEW_COMMENT'' \<or> eventType ev = ''UPDATE_COMMENT'')
               \<and> fetchVideoComments now conn (threadsOf a (resourceId ev)) w = (Inl e, w') \<longrightarrow>
               handleYouTubeWebhook now a lookup job message w
                 = (\<lparr>code = 200, success = Some True\<rparr>,
                    say (Err ''Error processing YouTube webhook'') w')"
      by (auto simp: handleYouTubeWebhook_def)
    have c7: "\<forall>ev conn r e w'. message = Some (Some ev) \<and> lookup = Inr (Some conn)
               \<and> (eventType ev = ''NEW_REVIEW'' \<or> eventType ev = ''UPDATE_REVIEW'')
               \<and> fetchReviews now conn (reviewsOf a (resourceId ev)) w = (Inr r, w')
               \<and> job = Inl e \<longrightarrow>
               handleGoogleWebhook now a lookup job message w
                 = (\<lparr>code = 200, success = Some True\<rparr>,
                    say (Err ''Error processing Google webhook'') w')"
      by (auto simp: handleGoogleWebhook_def)
    have c8: "\<forall>ev conn r e w'. message = Some (Some ev) \<and> lookup = Inr (Some conn)
               \<and> (eventType ev = ''NEW_COMMENT'' \<or> eventType ev = ''UPDATE_COMMENT'')
               \<and> fetchVideoComments now conn (threadsOf a (resourceId ev)) w = (Inr r, w')
               \<and> job = Inl e \<longrightarrow>
               handleYouTubeWebhook now a lookup job message w
                 = (\<lparr>code = 200, success = Some True\<rparr>,
                    say (Err ''Error processing YouTube webhook'') w')"
      by (auto simp: handleYouTubeWebhook_def)
    show ?thesis unfolding g y by (intro conjI c1 c2 c3 c4 c5 c6 c7 c8)
  qed
  show ?thesis
    unfolding Let_def
    apply (intro conjI)
      apply (rule over)
     apply (rule none)
    apply (rule impI, erule conjE)
    apply (rule pass; assumption)
    done
qed

theorem webhook_acknowledged_witness:
  "int (Suc 99) \<le> (case None of None \<Rightarrow> 100 | Some n \<Rightarrow> if n = 0 then 100 else n)
   \<and> Some (Some reviewEvent) \<noteq> None
   \<and> fetchReviews 0 googleConn (reviewsOf silentApi (resourceId reviewEvent)) emptyWorld
       = (Inl FetchFailed, say (Err ''Error fetching'') emptyWorld)
   \<and> postWebhooksGoogle None 99 0 silentApi (Inr (Some googleConn)) (Inr ())
        (Some (Some reviewEvent)) emptyWorld
     = (\<lparr>code = 200, success = Some True\<rparr>,
        say (Err ''Error processing Google webhook'') (say (Err ''Error fetching'') emptyWorld))
   \<and> fetchReviews 0 googleConn (reviewsOf emptyApi (resourceId reviewEvent)) emptyWorld
       = (Inr (0, []), emptyWorld)
   \<and> postWebhooksGoogle None 99 0 emptyApi (Inr (Some googleConn)) (Inl TypeError)
        (Some (Some reviewEvent)) emptyWorld
     = (\<lparr>code = 200, success = Some True\<rparr>,
        say (Err ''Error processing Google webhook'') emptyWorld)
   \<and> code (fst (postWebhooksGoogle None 99 0 silentApi (Inl NotFound) (Inr ()) (Some None)
        emptyWorld)) = 200
   \<and> postWebhooksYoutube None 99 0 silentApi (Inr None) (Inr ()) None emptyWorld
     = (\<lparr>code = 400, success = Some False\<rparr>, emptyWorld)
   \<and> (case Some 2 of None \<Rightarrow> 100 | Some n \<Rightarrow> if n = 0 then 100 else n) < int (Suc 2)
   \<and> postWebhooksGoogle (Some 2) 2 0 emptyApi (Inr (Some googleConn)) (Inr ())
        (Some (Some reviewEvent)) emptyWorld
     = (\<lparr>code = 429, success = None\<rparr>, emptyWorld)"
proof -
  have q: "int (Suc 99) \<le> (case (None :: int option) of None \<Rightarrow> 100
                               | Some n \<Rightarrow> if n = 0 then 100 else n)"
    "(case Some (2 :: int) of None \<Rightarrow> 100 | Some n \<Rightarrow> if n = 0 then 100 else n) < int (Suc 2)"
    by simp_all
  have m: "Some (Some reviewEvent) \<noteq> None" "Some (None :: event option) \<noteq> None" by simp_all
  have f: "fetchReviews 0 googleConn (reviewsOf silentApi (resourceId reviewEvent)) emptyWorld
       = (Inl FetchFailed, say (Err ''Error fetching'') emptyWorld)"
    by (simp add: fetchReviews_def silentApi_def)
  have f': "fetchReviews 0 googleConn (reviewsOf emptyApi (resourceId reviewEvent)) emptyWorld
       = (Inr (0, []), emptyWorld)"
    by (simp add: fetchReviews_def emptyApi_def bulkInsert_none)
  have t: "eventType reviewEvent = ''NEW_REVIEW''" by (simp add: reviewEvent_def)
  note failing = webhook_acknowledged [of None 99 0 silentApi "Inr (Some googleConn)" "Inr ()"
      "Some (Some reviewEvent)" emptyWorld, unfolded Let_def, THEN conjunct2, THEN conjunct2,
      THEN mp, OF conjI [OF q(1) m(1)]]
  have a: "postWebhooksGoogle None 99 0 silentApi (Inr (Some googleConn)) (Inr ())
        (Some (Some reviewEvent)) emptyWorld
     = (\<lparr>code = 200, success = Some True\<rparr>,
        say (Err ''Error processing Google webhook'') (say (Err ''Error fetching'') emptyWorld))"
    using failing [THEN conjunct2, THEN conjunct2, THEN conjunct2, THEN conjunct2,
        THEN conjunct1] f t
    by simp
  note handoff = webhook_acknowledged [of None 99 0 emptyApi "Inr (Some googleConn)"
      "Inl TypeError" "Some (Some reviewEvent)" emptyWorld, unfolded Let_def, THEN conjunct2,
      THEN conjunct2, THEN mp, OF conjI [OF q(1) m(1)]]
  have b: "postWebhooksGoogle None 99 0 emptyApi (Inr (Some googleConn)) (Inl TypeError)
        (Some (Some reviewEvent)) emptyWorld
     = (\<lparr>code = 200, success = Some True\<rparr>,
        say (Err ''Error processing Google webhook'') emptyWorld)"
    using handoff [THEN conjunct2, THEN conjunct2, THEN conjunct2, THEN conjunct2,
        THEN conjunct2, THEN conjunct2, THEN conjunct1] f' t
    by simp
  have c: "code (fst (postWebhooksGoogle None 99 0 silentApi (Inl NotFound) (Inr ()) (Some None)
        emptyWorld)) = 200"
    by (rule webhook_acknowledged [of None 99 0 silentApi "Inl NotFound" "Inr ()" "Some None"
        emptyWorld, unfolded Let_def, THEN conjunct2, THEN conjunct2, THEN mp,
        OF conjI [OF q(1) m(2)], THEN conjunct1])
  have d: "postWebhooksYoutube None 99 0 silentApi (Inr None) (Inr ()) None emptyWorld
     = (\<lparr>code = 400, success = Some False\<rparr>, emptyWorld)"
    by (rule webhook_acknowledged [of None 99 0 silentApi "Inr None" "Inr ()" None emptyWorld,
        unfolded Let_def, THEN conjunct2, THEN conjunct1, THEN mp, OF conjI [OF q(1) refl],
        THEN conjunct2])
  have e: "postWebhooksGoogle (Some 2) 2 0 emptyApi (Inr (Some googleConn)) (Inr ())
        (Some (Some reviewEvent)) emptyWorld
     = (\<lparr>code = 429, success = None\<rparr>, emptyWorld)"
    by (rule webhook_acknowledged [of "Some 2" 2 0 emptyApi "Inr (Some googleConn)" "Inr ()"
        "Some (Some reviewEvent)" emptyWorld, unfolded Let_def, THEN conjunct1, THEN mp,
        OF q(2), THEN conjunct1])
  show ?thesis by (intro conjI q m(1) f f' a b c d e)
qed

text \<open>
  A delivery without a message is rejected with 400 by both endpoints, and the 101st
  delivery of a client inside one window is answered with 429 although it carries a
  well-formed message.
\<close>

theorem webhook_not_acknowledged:
  "code (fst (postWebhooksGoogle None 0 0 silentApi (Inr (Some googleConn)) (Inr ()) None
      emptyWorld)) = 400
   \<and> code (fst (postWebhooksYoutube None 0 0 silentApi (Inr (Some googleConn)) (Inr ()) None
      emptyWorld)) = 400
   \<and> postWebhooksGoogle None 100 0 silentApi (Inr (Some googleConn)) (Inr ())
        (Some (Some reviewEvent)) emptyWorld = (\<lparr>code = 429, success = None\<rparr>, emptyWorld)
   \<and> postWebhooksYoutube None 100 0 silentApi (Inr (Some googleConn)) (Inr ())
        (Some (Some reviewEvent)) emptyWorld = (\<lparr>code = 429, success = None\<rparr>, emptyWorld)"
  by (simp add: postWebhooksGoogle_def postWebhooksYoutube_def limiter_def rateLimitMax_def
        handleGoogleWebhook_def handleYouTubeWebhook_def)

section \<open>Sync statistics\<close>

text \<open>
  C7, in the form that holds of the code. A YouTube sync run ends with exactly one write
  to the connection, whatever the per-video fetches did: a run that returns has applied
  \<open>updateSyncStats\<close> once with success, which resets the failure counter to 0, sets
  the status to connected and adds the run's count to the total; a run that throws has
  applied \<open>logError\<close> once, which records the last error and sets the status to error.
  The run returns whenever the channel id is present and the video list is obtained with
  a video id on every item. A reviews sync run over a connection with at least one
  location returns and has applied \<open>updateSyncStats\<close> once with success, whatever the
  per-location fetches did.
\<close>

theorem sync_stats_once:
  "(\<forall>total. fst (fetchAllChannelComments now a conn w) = Inr total \<longrightarrow>
       fst (snd (fetchAllChannelComments now a conn w)) = updateSyncStats total True now conn)
   \<and> (\<forall>e. fst (fetchAllChannelComments now a conn w) = Inl e \<longrightarrow>
       fst (snd (fetchAllChannelComments now a conn w)) = logError e now conn)
   \<and> (\<forall>ch vs. channelId conn = Some ch \<and> ch \<noteq> [] \<and> videos a = Some vs \<and> None \<notin> set vs \<longrightarrow>
       (\<exists>total. fst (fetchAllChannelComments now a conn w) = Inr total))
   \<and> (locationIds conn \<noteq> [] \<longrightarrow>
       (\<exists>total. fst (fetchAllReviews now a conn w) = Inr total
          \<and> fst (snd (fetchAllReviews now a conn w)) = updateSyncStats total True now conn))
   \<and> failedSyncAttempts (updateSyncStats n True now conn) = 0
   \<and> cstatus (updateSyncStats n True now conn) = ''connected''
   \<and> totalInteractionsSynced (updateSyncStats n True now conn) = totalInteractionsSynced conn + n
   \<and> lastSyncCount (updateSyncStats n True now conn) = n
   \<and> lastError (logError e now conn) = Some (e, now)
   \<and> cstatus (logError e now conn) = ''error''"
proof (intro conjI allI impI)
  fix total assume "fst (fetchAllChannelComments now a conn w) = Inr total"
  then show "fst (snd (fetchAllChannelComments now a conn w)) = updateSyncStats total True now conn"
    by (auto simp: fetchAllChannelComments_def split: option.splits if_splits prod.splits sum.splits)
next
  fix e assume "fst (fetchAllChannelComments now a conn w) = Inl e"
  then show "fst (snd (fetchAllChannelComments now a conn w)) = logError e now conn"
    by (auto simp: fetchAllChannelComments_def split: option.splits if_splits prod.splits sum.splits)
next
  fix ch vs
  assume h: "channelId conn = Some ch \<and> ch \<noteq> [] \<and> videos a = Some vs \<and> None \<notin> set vs"
  then obtain total w' where "syncVideos now a conn vs 0 w = (Inr total, w')"
    using syncVideos_returns [of vs now a conn 0 w] by blast
  then show "\<exists>total. fst (fetchAllChannelComments now a conn w) = Inr total"
    using h by (simp add: fetchAllChannelComments_def)
next
  assume "locationIds conn \<noteq> []"
  then show "\<exists>total. fst (fetchAllReviews now a conn w) = Inr total
          \<and> fst (snd (fetchAllReviews now a conn w)) = updateSyncStats total True now conn"
    by (simp add: fetchAllReviews_def split: prod.splits)
qed (simp_all add: updateSyncStats_def logError_def)

theorem sync_stats_once_witness:
  "channelId youtubeConn = Some ''ch1'' \<and> videos brokenVideosApi = Some [Some ''v1'', Some ''v2'']
   \<and> None \<notin> set [Some ''v1'', Some ''v2'']
   \<and> (\<exists>total. fst (fetchAllChannelComments 5 brokenVideosApi youtubeConn emptyWorld) = Inr total
        \<and> fst (snd (fetchAllChannelComments 5 brokenVideosApi youtubeConn emptyWorld))
            = updateSyncStats total True 5 youtubeConn)
   \<and> fst (fetchAllChannelComments 5 silentApi youtubeConn emptyWorld) = Inl FetchFailed
   \<and> fst (snd (fetchAllChannelComments 5 silentApi youtubeConn emptyWorld))
       = logError FetchFailed 5 youtubeConn"
proof -
  have c: "channelId youtubeConn = Some ''ch1''" by (simp add: youtubeConn_def)
  have v: "videos brokenVideosApi = Some [Some ''v1'', Some ''v2'']"
    by (simp add: brokenVideosApi_def)
  have n: "None \<notin> set [Some ''v1'', Some ''v2'']" by simp
  have f: "fst (fetchAllChannelComments 5 silentApi youtubeConn emptyWorld) = Inl FetchFailed"
    by (simp add: fetchAllChannelComments_def c silentApi_def)
  note t = sync_stats_once [of 5 brokenVideosApi youtubeConn emptyWorld]
  note u = sync_stats_once [of 5 silentApi youtubeConn emptyWorld]
  from t c v n obtain total where
    r: "fst (fetchAllChannelComments 5 brokenVideosApi youtubeConn emptyWorld) = Inr total"
    by blast
  with t have "fst (snd (fetchAllChannelComments 5 brokenVideosApi youtubeConn emptyWorld))
            = updateSyncStats total True 5 youtubeConn" by blast
  moreover from u f have "fst (snd (fetchAllChannelComments 5 silentApi youtubeConn emptyWorld))
       = logError FetchFailed 5 youtubeConn" by blast
  ultimately show ?thesis using c v n f r by blast
qed

text \<open>
  A reviews run over a connection without locations returns without touching the
  connection, and a YouTube run that fails as a whole leaves the failure counter as it
  was.
\<close>

theorem sync_stats_not_updated:
  "fetchAllReviews 5 silentApi googleConn emptyWorld = (Inr 0, googleConn, emptyWorld)
   \<and> fst (fetchAllChannelComments 5 silentApi youtubeConn emptyWorld) = Inl FetchFailed
   \<and> failedSyncAttempts (fst (snd (fetchAllChannelComments 5 silentApi youtubeConn emptyWorld)))
       = failedSyncAttempts youtubeConn"
  by (simp add: fetchAllReviews_def googleConn_def fetchAllChannelComments_def youtubeConn_def
        silentApi_def logError_def)


section \<open>Review adapter\<close>

text \<open>
  C9. The review adapter pre-classifies the sentiment of a review from its star rating
  alone: a rating of 4 or more gives positive, a rating of 2 or less gives negative, the
  rating 3 gives neutral, so that the ratings 1 to 5 of the star scale give negative,
  negative, neutral, positive, positive. (The classification is stated for every rating
  other than 0: the adapter reads a rating of 0, which is no star rating, as an absent
  one.) A review with rating 5 and no stored record for its review id in the
  organization yields one new Interaction with sentiment positive and status unread; a
  second delivery of the same review finds that record, creates nothing and leaves the
  store as it was.
\<close>

theorem fetchReviews_star_rating:
  "(4 \<le> n \<longrightarrow> sentiment (reviewDraft conn (r\<lparr>starRating := Some n\<rparr>)) = Some ''positive'')
   \<and> (n \<le> 2 \<and> n \<noteq> 0 \<longrightarrow>
        sentiment (reviewDraft conn (r\<lparr>starRating := Some n\<rparr>)) = Some ''negative'')
   \<and> sentiment (reviewDraft conn (r\<lparr>starRating := Some 3\<rparr>)) = Some ''neutral''
   \<and> map (\<lambda>n. sentiment (reviewDraft conn (r\<lparr>starRating := Some n\<rparr>))) [1, 2, 3, 4, 5]
       = [Some ''negative'', Some ''negative'', Some ''neutral'', Some ''positive'',
          Some ''positive'']
   \<and> (starRating r = Some 5 \<and> \<not> existsFor (reviewId r) (corg conn) w \<longrightarrow>
        (\<exists>d. fetchReviews now conn (Some [r]) w
                = (Inr (1, [reviewDraft conn r]), w\<lparr>interactions := interactions w @ [d]\<rparr>)
           \<and> organization d = corg conn \<and> platformId d = reviewId r
           \<and> sentiment d = Some ''positive'' \<and> status d = Some ''unread''
           \<and> fetchReviews later conn (Some [r]) (w\<lparr>interactions := interactions w @ [d]\<rparr>)
                = (Inr (0, []), w\<lparr>interactions := interactions w @ [d]\<rparr>)))"
proof (intro conjI impI)
  show "4 \<le> n \<Longrightarrow> sentiment (reviewDraft conn (r\<lparr>starRating := Some n\<rparr>)) = Some ''positive''"
    by (simp add: reviewDraft_def ratingSentiment_cases)
  show "n \<le> 2 \<and> n \<noteq> 0 \<Longrightarrow>
        sentiment (reviewDraft conn (r\<lparr>starRating := Some n\<rparr>)) = Some ''negative''"
    by (simp add: reviewDraft_def ratingSentiment_cases)
  show "sentiment (reviewDraft conn (r\<lparr>starRating := Some 3\<rparr>)) = Some ''neutral''"
    by (simp add: reviewDraft_def ratingSentiment_cases)
  show "map (\<lambda>n. sentiment (reviewDraft conn (r\<lparr>starRating := Some n\<rparr>))) [1, 2, 3, 4, 5]
       = [Some ''negative'', Some ''negative'', Some ''neutral'', Some ''positive'',
          Some ''positive'']"
    by (simp add: reviewDraft_def ratingSentiment_cases)
next
  assume h: "starRating r = Some 5 \<and> \<not> existsFor (reviewId r) (corg conn) w"
  let ?d = "(reviewDraft conn r)\<lparr>iid := fresh_id w, createdAt := now\<rparr>"
  have w1: "insertOne now (reviewDraft conn r) w = w\<lparr>interactions := interactions w @ [?d]\<rparr>"
    by (simp add: insertOne_def)
  have first: "fetchReviews now conn (Some [r]) w
                = (Inr (1, [reviewDraft conn r]), w\<lparr>interactions := interactions w @ [?d]\<rparr>)"
    using h fetchReviews_first [of r conn w now] w1 by simp
  have again: "fetchReviews later conn (Some [r]) (w\<lparr>interactions := interactions w @ [?d]\<rparr>)
                = (Inr (0, []), w\<lparr>interactions := interactions w @ [?d]\<rparr>)"
    using fetchReviews_again [of later conn r now w] w1 by simp
  have fields: "organization ?d = corg conn" "platformId ?d = reviewId r"
    "sentiment ?d = Some ''positive''" "status ?d = Some ''unread''"
    using h by (simp_all add: reviewDraft_def ratingSentiment_def truthy_def)
  show "\<exists>d. fetchReviews now conn (Some [r]) w
                = (Inr (1, [reviewDraft conn r]), w\<lparr>interactions := interactions w @ [d]\<rparr>)
           \<and> organization d = corg conn \<and> platformId d = reviewId r
           \<and> sentiment d = Some ''positive'' \<and> status d = Some ''unread''
           \<and> fetchReviews later conn (Some [r]) (w\<lparr>interactions := interactions w @ [d]\<rparr>)
                = (Inr (0, []), w\<lparr>interactions := interactions w @ [d]\<rparr>)"
    using first again fields by blast
qed

theorem fetchReviews_star_rating_witness:
  "starRating fiveStars = Some 5 \<and> \<not> existsFor (reviewId fiveStars) (corg googleConn) emptyWorld
   \<and> (\<exists>d. fetchReviews 10 googleConn (Some [fiveStars]) emptyWorld
             = (Inr (1, [reviewDraft googleConn fiveStars]), emptyWorld\<lparr>interactions := [d]\<rparr>)
        \<and> sentiment d = Some ''positive'' \<and> status d = Some ''unread''
        \<and> fetchReviews 20 googleConn (Some [fiveStars]) (emptyWorld\<lparr>interactions := [d]\<rparr>)
             = (Inr (0, []), emptyWorld\<lparr>interactions := [d]\<rparr>))
   \<and> sentiment (reviewDraft googleConn (fiveStars\<lparr>starRating := Some 1\<rparr>)) = Some ''negative''"
proof -
  have s: "starRating fiveStars = Some 5" by (simp add: fiveStars_def)
  have e: "\<not> existsFor (reviewId fiveStars) (corg googleConn) emptyWorld"
    by (simp add: existsFor_def emptyWorld_def)
  have i: "interactions emptyWorld = []" by (simp add: emptyWorld_def)
  have one: "(1::int) \<le> 2 \<and> (1::int) \<noteq> 0" by simp
  note t = fetchReviews_star_rating [of 5 googleConn fiveStars emptyWorld 10 20]
  note u = fetchReviews_star_rating [of 1 googleConn fiveStars emptyWorld 10 20]
  from t s e obtain d where
    "fetchReviews 10 googleConn (Some [fiveStars]) emptyWorld
       = (Inr (1, [reviewDraft googleConn fiveStars]),
          emptyWorld\<lparr>interactions := interactions emptyWorld @ [d]\<rparr>)"
    "sentiment d = Some ''positive''" "status d = Some ''unread''"
    "fetchReviews 20 googleConn (Some [fiveStars])
        (emptyWorld\<lparr>interactions := interactions emptyWorld @ [d]\<rparr>)
       = (Inr (0, []), emptyWorld\<lparr>interactions := interactions emptyWorld @ [d]\<rparr>)"
    by blast
  then have "\<exists>d. fetchReviews 10 googleConn (Some [fiveStars]) emptyWorld
             = (Inr (1, [reviewDraft googleConn fiveStars]), emptyWorld\<lparr>interactions := [d]\<rparr>)
        \<and> sentiment d = Some ''positive'' \<and> status d = Some ''unread''
        \<and> fetchReviews 20 googleConn (Some [fiveStars]) (emptyWorld\<lparr>interactions := [d]\<rparr>)
             = (Inr (0, []), emptyWorld\<lparr>interactions := [d]\<rparr>)"
    unfolding i by auto
  moreover from u one
  have "sentiment (reviewDraft googleConn (fiveStars\<lparr>starRating := Some 1\<rparr>)) = Some ''negative''"
    by blast
  ultimately show ?thesis using s e by blast
qed

section \<open>The dedup gate of the Instagram webhook job\<close>

text \<open>
  C2. The upsert of \<open>handleInstagramWebhook\<close> filters on the platform id alone.
  Delivering a comment to the empty store creates one record, and delivering it again
  for the same organization returns that record and leaves the store as it is; but
  delivering the same comment id for organization 2 matches the record of organization
  1 and rewrites it, so that organization 1 no longer has its interaction. The
  existence check of the review adapter filters on platform id and organization: a
  review whose id equals the platform id of a stored YouTube comment of the organization
  is taken for a duplicate and skipped, although the two differ in platform.
\<close>

theorem instagram_upsert_crosses_organizations:
  "handleInstagramWebhook 100 igPayload 1 emptyWorld = Inr (Some (storedComment 1), afterFirst 1)
   \<and> handleInstagramWebhook 200 igPayload 1 (afterFirst 1)
       = Inr (Some (storedComment 1), afterFirst 1)
   \<and> handleInstagramWebhook 200 igPayload 2 (afterFirst 1)
       = Inr (Some (storedComment 2), afterFirst 2)
   \<and> organization (storedComment 1) = 1 \<and> organization (storedComment 2) = 2
   \<and> fetchReviews 200 googleConn (Some [fiveStars]) youtubeWorld = (Inr (0, []), youtubeWorld)
   \<and> platform youtubeStored = ''youtube''
   \<and> key3 (reviewDraft googleConn fiveStars) = (7, ''google'', ''r1'')"
proof -
  have webhook:
    "handleInstagramWebhook 100 igPayload 1 emptyWorld = Inr (Some (storedComment 1), afterFirst 1)"
    "handleInstagramWebhook 200 igPayload 1 (afterFirst 1)
       = Inr (Some (storedComment 1), afterFirst 1)"
    "handleInstagramWebhook 200 igPayload 2 (afterFirst 1)
       = Inr (Some (storedComment 2), afterFirst 2)"
    by (simp_all add: handleInstagramWebhook_def igPayload_def findOneAndUpdate_def
          emptyWorld_def afterFirst_def storedComment_def commentUpdate_def igComment_def
          blank_def insertOne_def fresh_id_def save_def key3_def Let_def)
  have orgs: "organization (storedComment 1) = 1" "organization (storedComment 2) = 2"
    by (simp_all add: storedComment_def commentUpdate_def)
  have sync: "fetchReviews 200 googleConn (Some [fiveStars]) youtubeWorld
       = (Inr (0, []), youtubeWorld)"
    by (simp add: fetchReviews_def existsFor_def youtubeWorld_def youtubeStored_def
          fiveStars_def googleConn_def bulkInsert_none)
  have keys: "platform youtubeStored = ''youtube''"
    "key3 (reviewDraft googleConn fiveStars) = (7, ''google'', ''r1'')"
    by (simp_all add: youtubeStored_def key3_def reviewDraft_def googleConn_def fiveStars_def)
  show ?thesis using webhook orgs sync keys by simp
qed

section \<open>Batch isolation\<close>

text \<open>
  C8, in the form that holds of the code. In a batch of comment threads fetched by the
  YouTube adapter, a thread on which the loop body throws is skipped with one logged
  error: the drafts built from the batch are exactly those built from the batch without
  that thread, in the same order, the call returns the same result and stores the same
  documents, and the error is logged between the log lines of the threads before and
  after it. When each of the other N - 1 threads is well formed, new and without
  replies, the batch yields N - 1 drafts, one per remaining thread in order, and that
  single logged error. The same holds inside a thread for a reply on which the inner
  loop body throws.
\<close>

theorem fetchVideoComments_batch_isolation:
  assumes "threadThrows conn w bad"
  shows "fst (collectThreads conn w (xs @ bad # ys)) = fst (collectThreads conn w (xs @ ys))
     \<and> snd (collectThreads conn w (xs @ bad # ys))
         = snd (collectThreads conn w xs) @ Err ''Error processing comment''
             # snd (collectThreads conn w ys)
     \<and> fst (fetchVideoComments now conn (Some (xs @ bad # ys)) w)
         = fst (fetchVideoComments now conn (Some (xs @ ys)) w)
     \<and> interactions (snd (fetchVideoComments now conn (Some (xs @ bad # ys)) w))
         = interactions (snd (fetchVideoComments now conn (Some (xs @ ys)) w))
     \<and> ((\<forall>t\<in>set (xs @ ys). plainNew conn w t) \<longrightarrow>
          map platformId (fst (collectThreads conn w (xs @ bad # ys))) = map t_id (xs @ ys)
          \<and> length (fst (collectThreads conn w (xs @ bad # ys))) = length (xs @ bad # ys) - 1
          \<and> snd (collectThreads conn w (xs @ bad # ys)) = [Err ''Error processing comment''])
     \<and> (replyThrows conn w r \<longrightarrow>
          fst (processReplies conn c w (rs @ r # rs')) = fst (processReplies conn c w (rs @ rs'))
          \<and> snd (processReplies conn c w (rs @ r # rs'))
              = snd (processReplies conn c w rs) @ Err ''Error processing reply''
                  # snd (processReplies conn c w rs'))"
proof (intro conjI impI)
  note skip = collectThreads_skip [OF assms, of xs ys]
  show d: "fst (collectThreads conn w (xs @ bad # ys)) = fst (collectThreads conn w (xs @ ys))"
    by (simp add: skip)
  show l: "snd (collectThreads conn w (xs @ bad # ys))
         = snd (collectThreads conn w xs) @ Err ''Error processing comment''
             # snd (collectThreads conn w ys)"
    by (simp add: skip)
  show "fst (fetchVideoComments now conn (Some (xs @ bad # ys)) w)
         = fst (fetchVideoComments now conn (Some (xs @ ys)) w)"
    by (simp add: fetchVideoComments_def case_prod_beta d bulkInsert_console)
  show "interactions (snd (fetchVideoComments now conn (Some (xs @ bad # ys)) w))
         = interactions (snd (fetchVideoComments now conn (Some (xs @ ys)) w))"
    by (simp add: fetchVideoComments_def case_prod_beta d bulkInsert_console)
  assume p: "\<forall>t\<in>set (xs @ ys). plainNew conn w t"
  have all: "map platformId (fst (collectThreads conn w (xs @ ys))) = map t_id (xs @ ys)"
    "snd (collectThreads conn w (xs @ ys)) = []"
    using collectThreads_plainNew [OF p] by simp_all
  show m: "map platformId (fst (collectThreads conn w (xs @ bad # ys))) = map t_id (xs @ ys)"
    using all(1) d by simp
  have "length (map platformId (fst (collectThreads conn w (xs @ bad # ys)))) = length (map t_id (xs @ ys))"
    using m by simp
  then show "length (fst (collectThreads conn w (xs @ bad # ys))) = length (xs @ bad # ys) - 1"
    by simp
  have "snd (collectThreads conn w xs) = []" "snd (collectThreads conn w ys) = []"
    using all(2) by (simp_all add: collectThreads_append [of conn w xs ys])
  then show "snd (collectThreads conn w (xs @ bad # ys)) = [Err ''Error processing comment'']"
    using l by simp
next
  assume r: "replyThrows conn w r"
  show "fst (processReplies conn c w (rs @ r # rs')) = fst (processReplies conn c w (rs @ rs'))"
    by (simp add: processReplies_skip [OF r])
  show "snd (processReplies conn c w (rs @ r # rs'))
              = snd (processReplies conn c w rs) @ Err ''Error processing reply''
                  # snd (processReplies conn c w rs')"
    by (simp add: processReplies_skip [OF r])
qed


theorem fetchVideoComments_batch_isolation_witness:
  "threadThrows youtubeConn emptyWorld badThread
   \<and> plainNew youtubeConn emptyWorld (goodThread ''t1'')
   \<and> plainNew youtubeConn emptyWorld (goodThread ''t3'')
   \<and> map platformId (fst (collectThreads youtubeConn emptyWorld
          ([goodThread ''t1''] @ badThread # [goodThread ''t3''])))
       = [''t1'', ''t3'']
   \<and> snd (collectThreads youtubeConn emptyWorld
          ([goodThread ''t1''] @ badThread # [goodThread ''t3'']))
       = [Err ''Error processing comment'']"
proof -
  have b: "threadThrows youtubeConn emptyWorld badThread"
    by (simp add: threadThrows_def badThread_def)
  have p: "\<forall>t\<in>set ([goodThread ''t1''] @ [goodThread ''t3'']). plainNew youtubeConn emptyWorld t"
    by (simp add: plainNew_def goodThread_def existsFor_def emptyWorld_def)
  have i: "map t_id ([goodThread ''t1''] @ [goodThread ''t3'']) = [''t1'', ''t3'']"
    by (simp add: goodThread_def)
  note t = fetchVideoComments_batch_isolation [OF b, of "[goodThread ''t1'']"
      "[goodThread ''t3'']" 0]
  from t p have
    "map platformId (fst (collectThreads youtubeConn emptyWorld
          ([goodThread ''t1''] @ badThread # [goodThread ''t3''])))
       = map t_id ([goodThread ''t1''] @ [goodThread ''t3''])"
    "snd (collectThreads youtubeConn emptyWorld
          ([goodThread ''t1''] @ badThread # [goodThread ''t3'']))
       = [Err ''Error processing comment'']"
    by blast+
  moreover have "plainNew youtubeConn emptyWorld (goodThread ''t1'')"
    "plainNew youtubeConn emptyWorld (goodThread ''t3'')"
    using p by simp_all
  ultimately show ?thesis using b unfolding i by blast
qed

text \<open>
  The Instagram webhook job on a delivery of two comment changes, the first without a
  value: the job throws and the second change is never processed.
\<close>

theorem instagram_batch_aborts:
  "handleInstagramWebhook 100 brokenBatch 1 emptyWorld = Inl TypeError"
  by (simp add: handleInstagramWebhook_def brokenBatch_def)


end
